theory Spec2Isabelle
  imports Main "HOL-Library.Word"
begin

section \<open>JavaScript strings\<close>

text \<open>
  A JavaScript string is a sequence of UTF-16 code units. The client's own messages are
  Russian, and \<open>String.prototype.trim\<close> removes Unicode white space, so the code units
  are kept as they are: a string is a list of 16-bit words.
\<close>

type_synonym js_string = "16 word list"

definition ascii :: "string \<Rightarrow> js_string" where
  \<comment> \<open>A literal made of ASCII characters, one code unit each.\<close>
  "ascii s = map (\<lambda>c. of_nat (of_char c)) s"

definition white_space :: "16 word list" where
  \<comment> \<open>The code points of ECMAScript's WhiteSpace and LineTerminator productions:
      TAB, LF, VT, FF, CR, SP, NBSP, the other members of category Zs, LS, PS and
      the byte order mark. All of them are single code units.\<close>
  "white_space =
     [0x9, 0xA, 0xB, 0xC, 0xD, 0x20, 0xA0, 0x1680,
      0x2000, 0x2001, 0x2002, 0x2003, 0x2004, 0x2005, 0x2006, 0x2007, 0x2008, 0x2009, 0x200A,
      0x2028, 0x2029, 0x202F, 0x205F, 0x3000, 0xFEFF]"

definition is_ws :: "16 word \<Rightarrow> bool" where
  "is_ws c = (c \<in> set white_space)"

definition trim :: "js_string \<Rightarrow> js_string" where
  \<comment> \<open>\<open>s.trim()\<close>: white space removed from both ends.\<close>
  "trim s = rev (dropWhile is_ws (rev (dropWhile is_ws s)))"

definition digit :: "nat \<Rightarrow> 16 word" where
  "digit d = of_nat (48 + d)"

fun show_nat :: "nat \<Rightarrow> js_string" where
  "show_nat n = (if n < 10 then [digit n] else show_nat (n div 10) @ [digit (n mod 10)])"

declare show_nat.simps [simp del]

definition show_int :: "int \<Rightarrow> js_string" where
  \<comment> \<open>\<open>String(n)\<close> for an integer below \<open>2^53\<close> in magnitude, which JavaScript holds
      exactly and prints in full. Larger numbers print rounded, or with an exponent,
      and are outside this function; the component passes 50 and 0.\<close>
  "show_int i = (if i < 0 then ascii ''-'' @ show_nat (nat (- i)) else show_nat (nat i))"

section \<open>JSON values\<close>

text \<open>
  What \<open>res.json()\<close> and \<open>JSON.parse\<close> produce. A number is held as the text
  JavaScript prints for it (\<open>Number.prototype.toString\<close>), which identifies the number
  and is all the client ever does with one; the two zeros both print as \<open>0\<close>. An object
  is the list of its own properties, each key once.
\<close>

datatype json =
    JNull
  | JBool bool
  | JNum js_string
  | JStr js_string
  | JArr "json list"
  | JObj "(js_string \<times> json) list"

fun truthy :: "json \<Rightarrow> bool" where
  "truthy JNull = False"
| "truthy (JBool b) = b"
| "truthy (JNum n) = (n \<noteq> ascii ''0'')"
| "truthy (JStr s) = (s \<noteq> [])"
| "truthy (JArr xs) = True"
| "truthy (JObj ps) = True"

fun get_prop :: "json \<Rightarrow> js_string \<Rightarrow> json option" where
  \<comment> \<open>\<open>v?.k\<close> for a key that no prototype defines; \<open>None\<close> is \<open>undefined\<close>.\<close>
  "get_prop (JObj ps) k = map_of ps k"
| "get_prop v k = None"

fun join_with :: "js_string \<Rightarrow> js_string list \<Rightarrow> js_string" where
  "join_with sep [] = []"
| "join_with sep [x] = x"
| "join_with sep (x # y # ys) = x @ sep @ join_with sep (y # ys)"

fun sequence :: "'a option list \<Rightarrow> 'a list option" where
  "sequence [] = Some []"
| "sequence (None # xs) = None"
| "sequence (Some x # xs) = (case sequence xs of None \<Rightarrow> None | Some ys \<Rightarrow> Some (x # ys))"

fun to_string :: "json \<Rightarrow> js_string option" where
  \<comment> \<open>The abstract operation ToString, which \<open>new Error(v)\<close> applies to its argument.
      \<open>None\<close>: ToString throws a TypeError. A parsed object has no callable
      \<open>toString\<close> of its own, so an own property of that name hides the inherited one
      and the conversion fails; an array joins its elements with commas, \<open>null\<close>
      elements as empty strings.\<close>
  "to_string JNull = Some (ascii ''null'')"
| "to_string (JBool b) = Some (ascii (if b then ''true'' else ''false''))"
| "to_string (JNum n) = Some n"
| "to_string (JStr s) = Some s"
| "to_string (JArr xs) =
     map_option (join_with (ascii '',''))
       (sequence (map (\<lambda>x. if x = JNull then Some [] else to_string x) xs))"
| "to_string (JObj ps) =
     (if ascii ''toString'' \<in> fst ` set ps then None else Some (ascii ''[object Object]''))"

section \<open>Domain model (types.ts)\<close>

datatype SiteType = marketplace | news | ecommerce | classifieds | other

datatype TaskStatus = created | running | paused | completed | failed

fun site_type_str :: "SiteType \<Rightarrow> js_string" where
  \<comment> \<open>The string literal each member of the union type is.\<close>
  "site_type_str marketplace = ascii ''marketplace''"
| "site_type_str news = ascii ''news''"
| "site_type_str ecommerce = ascii ''ecommerce''"
| "site_type_str classifieds = ascii ''classifieds''"
| "site_type_str other = ascii ''other''"

fun status_str :: "TaskStatus \<Rightarrow> js_string" where
  "status_str created = ascii ''created''"
| "status_str running = ascii ''running''"
| "status_str paused = ascii ''paused''"
| "status_str completed = ascii ''completed''"
| "status_str failed = ascii ''failed''"

record Task =
  t_id :: js_string
  t_name :: js_string
  t_url :: js_string
  t_site_type :: SiteType
  t_status :: TaskStatus
  t_criteria :: json
  t_created_at :: js_string
  t_updated_at :: js_string

record TaskList =
  tl_items :: "Task list"
  tl_total :: int
  tl_limit :: int
  tl_offset :: int

record TaskCreate =
  c_name :: js_string
  c_url :: js_string
  c_site_type :: SiteType
  c_criteria :: json

section \<open>Transport client (api.ts)\<close>

subsection \<open>URLSearchParams\<close>

text \<open>
  The list of name-value pairs of a \<open>URLSearchParams\<close> object, its \<open>set\<close> method
  and its \<open>toString\<close>, the application/x-www-form-urlencoded serializer: the string is
  converted to scalar values (a lone surrogate becomes U+FFFD), encoded in UTF-8,
  and every byte other than an ASCII letter or digit and \<open>* - . _\<close> is written as
  \<open>%XX\<close>, a space as \<open>+\<close>.
\<close>

fun sp_set :: "js_string \<Rightarrow> js_string \<Rightarrow> (js_string \<times> js_string) list \<Rightarrow> (js_string \<times> js_string) list" where
  "sp_set k v [] = [(k, v)]"
| "sp_set k v (p # ps) =
     (if fst p = k then (k, v) # filter (\<lambda>p'. fst p' \<noteq> k) ps else p # sp_set k v ps)"

definition is_high :: "16 word \<Rightarrow> bool" where
  "is_high c = (0xD800 \<le> unat c \<and> unat c \<le> 0xDBFF)"

definition is_low :: "16 word \<Rightarrow> bool" where
  "is_low c = (0xDC00 \<le> unat c \<and> unat c \<le> 0xDFFF)"

definition scalar :: "16 word \<Rightarrow> nat" where
  "scalar c = (if is_high c \<or> is_low c then 0xFFFD else unat c)"

fun scalar_values :: "js_string \<Rightarrow> nat list" where
  "scalar_values [] = []"
| "scalar_values [c] = [scalar c]"
| "scalar_values (c # d # cs) =
     (if is_high c \<and> is_low d
      then (0x10000 + (unat c - 0xD800) * 0x400 + (unat d - 0xDC00)) # scalar_values cs
      else scalar c # scalar_values (d # cs))"

definition utf8 :: "nat \<Rightarrow> nat list" where
  "utf8 cp =
     (if cp < 0x80 then [cp]
      else if cp < 0x800 then [0xC0 + cp div 0x40, 0x80 + cp mod 0x40]
      else if cp < 0x10000
        then [0xE0 + cp div 0x1000, 0x80 + cp div 0x40 mod 0x40, 0x80 + cp mod 0x40]
      else [0xF0 + cp div 0x40000, 0x80 + cp div 0x1000 mod 0x40,
            0x80 + cp div 0x40 mod 0x40, 0x80 + cp mod 0x40])"

definition hex_digit :: "nat \<Rightarrow> 16 word" where
  "hex_digit d = of_nat (if d < 10 then 48 + d else 55 + d)"

definition unreserved :: "nat \<Rightarrow> bool" where
  "unreserved b =
     ((0x30 \<le> b \<and> b \<le> 0x39) \<or> (0x41 \<le> b \<and> b \<le> 0x5A) \<or> (0x61 \<le> b \<and> b \<le> 0x7A)
      \<or> b = 0x2A \<or> b = 0x2D \<or> b = 0x2E \<or> b = 0x5F)"

definition encode_byte :: "nat \<Rightarrow> js_string" where
  "encode_byte b =
     (if b = 0x20 then ascii ''+''
      else if unreserved b then [of_nat b]
      else ascii ''%'' @ [hex_digit (b div 16), hex_digit (b mod 16)])"

definition urlencode :: "js_string \<Rightarrow> js_string" where
  "urlencode s = concat (map encode_byte (concat (map utf8 (scalar_values s))))"

definition sp_toString :: "(js_string \<times> js_string) list \<Rightarrow> js_string" where
  "sp_toString sp = join_with (ascii ''&'') (map (\<lambda>(k, v). urlencode k @ ascii ''='' @ urlencode v) sp)"

subsection \<open>req\<close>

text \<open>
  \<open>fetch\<close> is the environment: a function from the request to what comes back. A
  response carries its status and what \<open>res.json()\<close> gives for its body, \<open>None\<close> when
  the body is not JSON and \<open>res.json()\<close> rejects. The body of a request is kept as the
  value handed to \<open>JSON.stringify\<close>. The type parameter of \<open>req\<close> is erased at run
  time: the result is the parsed body, or \<open>undefined\<close> (\<open>None\<close>) after a 204.
\<close>

record request_init =
  i_method :: js_string
  i_body :: "json option"

record request =
  r_url :: js_string
  r_method :: "js_string option"
  r_headers :: "(js_string \<times> js_string) list"
  r_body :: "json option"

datatype fetch_result = NetworkError | Response nat "json option"

datatype req_failure =
    HttpError js_string  \<comment> \<open>\<open>throw new Error(detail)\<close>, with the message of the error\<close>
  | CoercionFailure  \<comment> \<open>\<open>new Error(detail)\<close> threw: \<open>detail\<close> has no string conversion\<close>
  | BodySyntaxError  \<comment> \<open>\<open>res.json()\<close> of a success response rejected\<close>
  | NetworkFailure  \<comment> \<open>\<open>fetch\<close> rejected\<close>

definition API_BASE :: js_string where
  "API_BASE = ascii ''http://localhost:8000/api''"

definition ok :: "nat \<Rightarrow> bool" where
  \<comment> \<open>\<open>res.ok\<close>\<close>
  "ok st = (200 \<le> st \<and> st \<le> 299)"

definition fetch_args :: "js_string \<Rightarrow> request_init option \<Rightarrow> request" where
  \<comment> \<open>No caller passes headers, so \<open>init?.headers ?? {}\<close> adds none.\<close>
  "fetch_args path init =
     \<lparr>r_url = API_BASE @ path,
      r_method = map_option i_method init,
      r_headers = [(ascii ''Content-Type'', ascii ''application/json'')],
      r_body = Option.bind init i_body\<rparr>"

definition error_detail :: "nat \<Rightarrow> json option \<Rightarrow> json" where
  \<comment> \<open>The variable \<open>detail\<close> at the \<open>throw\<close>.\<close>
  "error_detail st body =
     (let detail = JStr (ascii ''HTTP '' @ show_nat st)
      in case body of
           None \<Rightarrow> detail
         | Some b \<Rightarrow>
             (case get_prop b (ascii ''detail'') of
                None \<Rightarrow> detail
              | Some d \<Rightarrow> if truthy d then d else detail))"

definition req :: "(request \<Rightarrow> fetch_result) \<Rightarrow> js_string \<Rightarrow> request_init option \<Rightarrow> req_failure + json option" where
  "req fetch path init =
     (case fetch (fetch_args path init) of
        NetworkError \<Rightarrow> Inl NetworkFailure
      | Response st body \<Rightarrow>
          if \<not> ok st then
            (case to_string (error_detail st body) of
               None \<Rightarrow> Inl CoercionFailure
             | Some message \<Rightarrow> Inl (HttpError message))
          else if st = 204 then Inr None
          else (case body of None \<Rightarrow> Inl BodySyntaxError | Some b \<Rightarrow> Inr (Some b)))"

subsection \<open>The four operations\<close>

record list_params =
  p_limit :: "int option"
  p_offset :: "int option"
  p_status :: "js_string option"
  p_site_type :: "js_string option"
  p_q :: "js_string option"

datatype api_call =
    ListTasks "list_params option"
  | CreateTask TaskCreate
  | DeleteTask js_string
  | UpdateStatus js_string TaskStatus

definition listTasks_sp :: "list_params option \<Rightarrow> (js_string \<times> js_string) list" where
  \<comment> \<open>The search parameters \<open>sp\<close> after the five conditional \<open>set\<close> calls;
      \<open>params\<close> itself may be \<open>undefined\<close>, and a string is truthy when not empty.\<close>
  "listTasks_sp params =
     (let sp0 = [];
          sp1 = (case Option.bind params p_limit of
                   Some l \<Rightarrow> sp_set (ascii ''limit'') (show_int l) sp0 | None \<Rightarrow> sp0);
          sp2 = (case Option.bind params p_offset of
                   Some off \<Rightarrow> sp_set (ascii ''offset'') (show_int off) sp1 | None \<Rightarrow> sp1);
          sp3 = (case Option.bind params p_status of
                   Some s \<Rightarrow> if s \<noteq> [] then sp_set (ascii ''status'') s sp2 else sp2
                 | None \<Rightarrow> sp2);
          sp4 = (case Option.bind params p_site_type of
                   Some s \<Rightarrow> if s \<noteq> [] then sp_set (ascii ''site_type'') s sp3 else sp3
                 | None \<Rightarrow> sp3);
          sp5 = (case Option.bind params p_q of
                   Some s \<Rightarrow> if s \<noteq> [] then sp_set (ascii ''q'') s sp4 else sp4
                 | None \<Rightarrow> sp4)
      in sp5)"

definition listTasks_path :: "list_params option \<Rightarrow> js_string" where
  "listTasks_path params =
     (let qs = sp_toString (listTasks_sp params)
      in ascii ''/tasks'' @ (if qs \<noteq> [] then ascii ''?'' @ qs else []))"

definition json_of_TaskCreate :: "TaskCreate \<Rightarrow> json" where
  "json_of_TaskCreate payload =
     JObj [(ascii ''name'', JStr (c_name payload)),
           (ascii ''url'', JStr (c_url payload)),
           (ascii ''site_type'', JStr (site_type_str (c_site_type payload))),
           (ascii ''criteria'', c_criteria payload)]"

fun api_args :: "api_call \<Rightarrow> js_string \<times> request_init option" where
  \<comment> \<open>The arguments each operation of \<open>api\<close> passes to \<open>req\<close>.\<close>
  "api_args (ListTasks params) = (listTasks_path params, None)"
| "api_args (CreateTask payload) =
     (ascii ''/tasks'', Some \<lparr>i_method = ascii ''POST'', i_body = Some (json_of_TaskCreate payload)\<rparr>)"
| "api_args (DeleteTask tid) =
     (ascii ''/tasks/'' @ tid, Some \<lparr>i_method = ascii ''DELETE'', i_body = None\<rparr>)"
| "api_args (UpdateStatus tid st) =
     (ascii ''/tasks/'' @ tid,
      Some \<lparr>i_method = ascii ''PATCH'',
            i_body = Some (JObj [(ascii ''status'', JStr (status_str st))])\<rparr>)"

definition api :: "(request \<Rightarrow> fetch_result) \<Rightarrow> api_call \<Rightarrow> req_failure + json option" where
  "api fetch call = (case api_args call of (path, init) \<Rightarrow> req fetch path init)"

section \<open>View-state controller (the App component)\<close>

subsection \<open>State\<close>

text \<open>
  The ten state variables of the component. The two filter selectors hold a member of
  the enumeration or the empty string of the option "all", which is \<open>None\<close> here.
\<close>

record app_state =
  items :: "Task list"
  loading :: bool
  err :: "js_string option"
  q :: js_string
  siteType :: "SiteType option"
  status :: "TaskStatus option"
  name :: js_string
  url :: js_string
  createSiteType :: SiteType
  criteriaText :: js_string

definition default_criteriaText :: js_string where
  "default_criteriaText = ascii ''{\"depth\": 1}''"

definition init_app :: app_state where
  "init_app =
     \<lparr>items = [], loading = False, err = None, q = [], siteType = None, status = None,
      name = [], url = [], createSiteType = other, criteriaText = default_criteriaText\<rparr>"

text \<open>
  The messages of the component, in code units. In order they read, in Russian:
  "loading error", "enter the task name", "enter the URL", "the criteria must be valid
  JSON", "creation error", "deletion error", "status update error".
\<close>

definition msg_load :: js_string where
  "msg_load =
     [0x41E, 0x448, 0x438, 0x431, 0x43A, 0x430, 0x20,
      0x437, 0x430, 0x433, 0x440, 0x443, 0x437, 0x43A, 0x438]"

definition msg_name :: js_string where
  "msg_name =
     [0x412, 0x432, 0x435, 0x434, 0x438, 0x442, 0x435, 0x20,
      0x43D, 0x430, 0x437, 0x432, 0x430, 0x43D, 0x438, 0x435, 0x20,
      0x437, 0x430, 0x434, 0x430, 0x447, 0x438]"

definition msg_url :: js_string where
  "msg_url = [0x412, 0x432, 0x435, 0x434, 0x438, 0x442, 0x435, 0x20, 0x55, 0x52, 0x4C]"

definition msg_criteria :: js_string where
  "msg_criteria =
     [0x41A, 0x440, 0x438, 0x442, 0x435, 0x440, 0x438, 0x438, 0x20,
      0x434, 0x43E, 0x43B, 0x436, 0x43D, 0x44B, 0x20, 0x431, 0x44B, 0x442, 0x44C, 0x20,
      0x432, 0x430, 0x43B, 0x438, 0x434, 0x43D, 0x44B, 0x43C, 0x20, 0x4A, 0x53, 0x4F, 0x4E]"

definition msg_create :: js_string where
  "msg_create =
     [0x41E, 0x448, 0x438, 0x431, 0x43A, 0x430, 0x20,
      0x441, 0x43E, 0x437, 0x434, 0x430, 0x43D, 0x438, 0x44F]"

definition msg_delete :: js_string where
  "msg_delete =
     [0x41E, 0x448, 0x438, 0x431, 0x43A, 0x430, 0x20,
      0x443, 0x434, 0x430, 0x43B, 0x435, 0x43D, 0x438, 0x44F]"

definition msg_status :: js_string where
  "msg_status =
     [0x41E, 0x448, 0x438, 0x431, 0x43A, 0x430, 0x20,
      0x43E, 0x431, 0x43D, 0x43E, 0x432, 0x43B, 0x435, 0x43D, 0x438, 0x44F, 0x20,
      0x441, 0x442, 0x430, 0x442, 0x443, 0x441, 0x430]"

subsection \<open>The effective filter\<close>

definition select_value :: "('a \<Rightarrow> js_string) \<Rightarrow> 'a option \<Rightarrow> js_string" where
  \<comment> \<open>The string a selector's state variable holds.\<close>
  "select_value str v = (case v of None \<Rightarrow> [] | Some x \<Rightarrow> str x)"

definition or_undefined :: "js_string \<Rightarrow> js_string option" where
  \<comment> \<open>\<open>s || undefined\<close>\<close>
  "or_undefined s = (if s \<noteq> [] then Some s else None)"

definition filters :: "app_state \<Rightarrow> list_params" where
  "filters s =
     \<lparr>p_limit = Some 50,
      p_offset = Some 0,
      p_status = or_undefined (select_value status_str (status s)),
      p_site_type = or_undefined (select_value site_type_str (siteType s)),
      p_q = or_undefined (trim (q s))\<rparr>"

subsection \<open>Calls in flight\<close>

text \<open>
  An \<open>async\<close> function runs until its \<open>await\<close>, and its rest runs when the awaited
  call settles; in between, other handlers run. The model keeps, beside the component's
  state, every transport call that has not settled yet with the rest of the function
  that awaits it, under a number that stands for the promise, and a log of all the
  calls made. A handler reads the state variables and \<open>filters\<close> of the render it
  was created in, so a function suspended in \<open>onCreate\<close>, \<open>onDelete\<close> or \<open>onStatus\<close>
  holds the filters of the moment the handler was invoked, and its later \<open>load()\<close>
  sends those.
\<close>

datatype caller = TopLevel | InCreate | InDelete | InStatus

datatype continuation =
    AfterList caller  \<comment> \<open>\<open>load\<close> at its \<open>await\<close>, and who awaits \<open>load\<close> in turn\<close>
  | AfterCreate list_params  \<comment> \<open>\<open>onCreate\<close> awaiting \<open>createTask\<close>\<close>
  | AfterDelete list_params  \<comment> \<open>\<open>onDelete\<close> awaiting \<open>deleteTask\<close>\<close>
  | AfterStatus list_params  \<comment> \<open>\<open>onStatus\<close> awaiting \<open>updateStatus\<close>\<close>

record system =
  app :: app_state
  inflight :: "(nat \<times> continuation) list"
  calls :: "api_call list"

definition init_system :: system where
  "init_system = \<lparr>app = init_app, inflight = [], calls = []\<rparr>"

definition fresh :: "(nat \<times> continuation) list \<Rightarrow> nat" where
  "fresh ps = Suc (foldr max (map fst ps) 0)"

definition issue :: "api_call \<Rightarrow> continuation \<Rightarrow> system \<Rightarrow> system" where
  "issue call k \<sigma> =
     \<sigma>\<lparr>inflight := inflight \<sigma> @ [(fresh (inflight \<sigma>), k)], calls := calls \<sigma> @ [call]\<rparr>"

definition newest :: "system \<Rightarrow> nat" where
  \<comment> \<open>The number of the call issued last, among those in flight.\<close>
  "newest \<sigma> = (case inflight \<sigma> of [] \<Rightarrow> 0 | _ \<Rightarrow> fst (last (inflight \<sigma>)))"

text \<open>
  What an awaited call settles with: the value of the declared type, or the thrown
  value, of which the handlers read \<open>e?.message\<close> only (\<open>None\<close>: null or undefined).
\<close>

datatype 'a outcome = Fulfilled 'a | Rejected "js_string option"

datatype settled =
    ListSettled "TaskList outcome"
  | TaskSettled "Task outcome"
  | VoidSettled "unit outcome"

definition message_or :: "js_string option \<Rightarrow> js_string \<Rightarrow> js_string" where
  \<comment> \<open>\<open>e?.message ?? fallback\<close>\<close>
  "message_or m fallback = (case m of None \<Rightarrow> fallback | Some s \<Rightarrow> s)"

subsection \<open>State setters\<close>

definition setItems :: "Task list \<Rightarrow> system \<Rightarrow> system" where
  "setItems v \<sigma> = \<sigma>\<lparr>app := (app \<sigma>)\<lparr>items := v\<rparr>\<rparr>"

definition setLoading :: "bool \<Rightarrow> system \<Rightarrow> system" where
  "setLoading v \<sigma> = \<sigma>\<lparr>app := (app \<sigma>)\<lparr>loading := v\<rparr>\<rparr>"

definition setErr :: "js_string option \<Rightarrow> system \<Rightarrow> system" where
  "setErr v \<sigma> = \<sigma>\<lparr>app := (app \<sigma>)\<lparr>err := v\<rparr>\<rparr>"

definition setQ :: "js_string \<Rightarrow> system \<Rightarrow> system" where
  "setQ v \<sigma> = \<sigma>\<lparr>app := (app \<sigma>)\<lparr>q := v\<rparr>\<rparr>"

definition setSiteType :: "SiteType option \<Rightarrow> system \<Rightarrow> system" where
  "setSiteType v \<sigma> = \<sigma>\<lparr>app := (app \<sigma>)\<lparr>siteType := v\<rparr>\<rparr>"

definition setStatus :: "TaskStatus option \<Rightarrow> system \<Rightarrow> system" where
  "setStatus v \<sigma> = \<sigma>\<lparr>app := (app \<sigma>)\<lparr>status := v\<rparr>\<rparr>"

definition setName :: "js_string \<Rightarrow> system \<Rightarrow> system" where
  "setName v \<sigma> = \<sigma>\<lparr>app := (app \<sigma>)\<lparr>name := v\<rparr>\<rparr>"

definition setUrl :: "js_string \<Rightarrow> system \<Rightarrow> system" where
  "setUrl v \<sigma> = \<sigma>\<lparr>app := (app \<sigma>)\<lparr>url := v\<rparr>\<rparr>"

definition setCreateSiteType :: "SiteType \<Rightarrow> system \<Rightarrow> system" where
  "setCreateSiteType v \<sigma> = \<sigma>\<lparr>app := (app \<sigma>)\<lparr>createSiteType := v\<rparr>\<rparr>"

definition setCriteriaText :: "js_string \<Rightarrow> system \<Rightarrow> system" where
  "setCriteriaText v \<sigma> = \<sigma>\<lparr>app := (app \<sigma>)\<lparr>criteriaText := v\<rparr>\<rparr>"

subsection \<open>load\<close>

definition load :: "caller \<Rightarrow> list_params \<Rightarrow> system \<Rightarrow> system" where
  \<comment> \<open>\<open>load\<close> up to its \<open>await\<close>; \<open>f\<close> is the \<open>filters\<close> the running closure holds.\<close>
  "load c f \<sigma> = issue (ListTasks (Some f)) (AfterList c) (setErr None (setLoading True \<sigma>))"

definition load_settled :: "caller \<Rightarrow> TaskList outcome \<Rightarrow> system \<Rightarrow> system" where
  \<comment> \<open>The rest of \<open>load\<close>, then the \<open>finally\<close> of the handler that awaited it, if any.\<close>
  "load_settled c out \<sigma> =
     (let \<sigma>1 = (case out of
                  Fulfilled data \<Rightarrow> setItems (tl_items data) \<sigma>
                | Rejected m \<Rightarrow> setErr (Some (message_or m msg_load)) \<sigma>);
          \<sigma>2 = setLoading False \<sigma>1
      in if c = TopLevel then \<sigma>2 else setLoading False \<sigma>2)"

subsection \<open>onCreate, onDelete, onStatus\<close>

text \<open>
  \<open>JSON.parse\<close> is a parameter: \<open>parse text\<close> is the parsed value, or \<open>None\<close> when
  \<open>JSON.parse\<close> throws. Whether the user confirms the deletion is an input of
  \<open>onDelete\<close>.
\<close>

definition onCreate :: "(js_string \<Rightarrow> json option) \<Rightarrow> system \<Rightarrow> system" where
  "onCreate parse \<sigma> =
     (let s = app \<sigma>; \<sigma>0 = setErr None \<sigma>
      in if trim (name s) = [] then setErr (Some msg_name) \<sigma>0
         else if trim (url s) = [] then setErr (Some msg_url) \<sigma>0
         else
           (case (if trim (criteriaText s) \<noteq> [] then parse (criteriaText s) else Some (JObj [])) of
              None \<Rightarrow> setErr (Some msg_criteria) \<sigma>0
            | Some criteria \<Rightarrow>
                issue
                  (CreateTask \<lparr>c_name = trim (name s), c_url = trim (url s),
                               c_site_type = createSiteType s, c_criteria = criteria\<rparr>)
                  (AfterCreate (filters s))
                  (setLoading True \<sigma>0)))"

definition onCreate_settled :: "list_params \<Rightarrow> Task outcome \<Rightarrow> system \<Rightarrow> system" where
  "onCreate_settled f out \<sigma> =
     (case out of
        Fulfilled t \<Rightarrow>
          load InCreate f (setCriteriaText default_criteriaText (setUrl [] (setName [] \<sigma>)))
      | Rejected m \<Rightarrow> setLoading False (setErr (Some (message_or m msg_create)) \<sigma>))"

definition onDelete :: "js_string \<Rightarrow> bool \<Rightarrow> system \<Rightarrow> system" where
  "onDelete tid confirmed \<sigma> =
     (if \<not> confirmed then \<sigma>
      else issue (DeleteTask tid) (AfterDelete (filters (app \<sigma>)))
             (setErr None (setLoading True \<sigma>)))"

definition onDelete_settled :: "list_params \<Rightarrow> unit outcome \<Rightarrow> system \<Rightarrow> system" where
  "onDelete_settled f out \<sigma> =
     (case out of
        Fulfilled u \<Rightarrow> load InDelete f \<sigma>
      | Rejected m \<Rightarrow> setLoading False (setErr (Some (message_or m msg_delete)) \<sigma>))"

definition onStatus :: "js_string \<Rightarrow> TaskStatus \<Rightarrow> system \<Rightarrow> system" where
  "onStatus tid newStatus \<sigma> =
     issue (UpdateStatus tid newStatus) (AfterStatus (filters (app \<sigma>)))
       (setErr None (setLoading True \<sigma>))"

definition onStatus_settled :: "list_params \<Rightarrow> Task outcome \<Rightarrow> system \<Rightarrow> system" where
  "onStatus_settled f out \<sigma> =
     (case out of
        Fulfilled t \<Rightarrow> load InStatus f \<sigma>
      | Rejected m \<Rightarrow> setLoading False (setErr (Some (message_or m msg_status)) \<sigma>))"

subsection \<open>Settling a call, and the events of the component\<close>

fun resume :: "continuation \<Rightarrow> settled \<Rightarrow> system \<Rightarrow> system option" where
  "resume (AfterList c) (ListSettled out) \<sigma> = Some (load_settled c out \<sigma>)"
| "resume (AfterCreate f) (TaskSettled out) \<sigma> = Some (onCreate_settled f out \<sigma>)"
| "resume (AfterDelete f) (VoidSettled out) \<sigma> = Some (onDelete_settled f out \<sigma>)"
| "resume (AfterStatus f) (TaskSettled out) \<sigma> = Some (onStatus_settled f out \<sigma>)"
| "resume k st \<sigma> = None"

definition settle :: "nat \<Rightarrow> settled \<Rightarrow> system \<Rightarrow> system" where
  \<comment> \<open>Call \<open>i\<close> settles: it leaves the calls in flight and the function awaiting it
      goes on. A settlement of a call that is not in flight, or with a value of another
      operation's type, is no event of the program and changes nothing.\<close>
  "settle i st \<sigma> =
     (case map_of (inflight \<sigma>) i of
        None \<Rightarrow> \<sigma>
      | Some k \<Rightarrow>
          (case resume k st (\<sigma>\<lparr>inflight := filter (\<lambda>p. fst p \<noteq> i) (inflight \<sigma>)\<rparr>) of
             None \<Rightarrow> \<sigma>
           | Some \<sigma>' \<Rightarrow> \<sigma>'))"

definition deps :: "list_params \<Rightarrow> js_string option \<times> js_string option \<times> js_string option" where
  \<comment> \<open>The dependency array of the effect.\<close>
  "deps f = (p_q f, p_site_type f, p_status f)"

definition effect :: "system \<Rightarrow> system \<Rightarrow> system" where
  \<comment> \<open>\<open>useEffect\<close> after a render: \<open>load()\<close> runs when a dependency has changed.\<close>
  "effect old new =
     (if deps (filters (app new)) \<noteq> deps (filters (app old))
      then load TopLevel (filters (app new)) new else new)"

definition mount :: system where
  \<comment> \<open>The first render and its effect.\<close>
  "mount = load TopLevel (filters init_app) init_system"

text \<open>
  The three buttons carry \<open>disabled={loading}\<close>: a click while the loading flag is
  set reaches no handler. The inputs and the status selector of a row are never
  disabled.
\<close>

datatype event =
    ChangeQ js_string
  | ChangeSiteType "SiteType option"
  | ChangeStatus "TaskStatus option"
  | ChangeName js_string
  | ChangeUrl js_string
  | ChangeCreateSiteType SiteType
  | ChangeCriteriaText js_string
  | ClickRefresh
  | ClickCreate
  | ClickDelete js_string bool
  | SelectTaskStatus js_string TaskStatus
  | Settle nat settled

fun step :: "(js_string \<Rightarrow> json option) \<Rightarrow> system \<Rightarrow> event \<Rightarrow> system" where
  "step parse \<sigma> (ChangeQ v) = effect \<sigma> (setQ v \<sigma>)"
| "step parse \<sigma> (ChangeSiteType v) = effect \<sigma> (setSiteType v \<sigma>)"
| "step parse \<sigma> (ChangeStatus v) = effect \<sigma> (setStatus v \<sigma>)"
| "step parse \<sigma> (ChangeName v) = setName v \<sigma>"
| "step parse \<sigma> (ChangeUrl v) = setUrl v \<sigma>"
| "step parse \<sigma> (ChangeCreateSiteType v) = setCreateSiteType v \<sigma>"
| "step parse \<sigma> (ChangeCriteriaText v) = setCriteriaText v \<sigma>"
| "step parse \<sigma> ClickRefresh =
     (if loading (app \<sigma>) then \<sigma> else load TopLevel (filters (app \<sigma>)) \<sigma>)"
| "step parse \<sigma> ClickCreate = (if loading (app \<sigma>) then \<sigma> else onCreate parse \<sigma>)"
| "step parse \<sigma> (ClickDelete tid confirmed) =
     (if loading (app \<sigma>) then \<sigma> else onDelete tid confirmed \<sigma>)"
| "step parse \<sigma> (SelectTaskStatus tid newStatus) = onStatus tid newStatus \<sigma>"
| "step parse \<sigma> (Settle i st) = settle i st \<sigma>"

definition run :: "(js_string \<Rightarrow> json option) \<Rightarrow> system \<Rightarrow> event list \<Rightarrow> system" where
  "run parse \<sigma> es = foldl (step parse) \<sigma> es"

subsection \<open>An action on its own\<close>

definition then_settle :: "settled \<Rightarrow> system \<Rightarrow> system" where
  \<comment> \<open>The call issued last settles next: no other event comes in between.\<close>
  "then_settle st \<sigma> = settle (newest \<sigma>) st \<sigma>"

subsection \<open>Reloads settling one after another\<close>

definition settlements :: "(nat \<times> TaskList outcome) list \<Rightarrow> event list" where
  \<comment> \<open>The calls to \<open>listTasks\<close> numbered in \<open>rs\<close> settle in the order of the list.\<close>
  "settlements rs = map (\<lambda>(i, out). Settle i (ListSettled out)) rs"

fun fulfilled :: "(nat \<times> TaskList outcome) list \<Rightarrow> TaskList list" where
  \<comment> \<open>The results of those that succeeded, in the order they arrived.\<close>
  "fulfilled [] = []"
| "fulfilled ((i, Fulfilled d) # rs) = d # fulfilled rs"
| "fulfilled ((i, Rejected m) # rs) = fulfilled rs"

section \<open>Concrete inputs\<close>

definition example_parse :: "js_string \<Rightarrow> json option" where
  \<comment> \<open>\<open>JSON.parse\<close> on the texts of the examples: it accepts \<open>{}\<close> and the default
      criteria text, and rejects anything else.\<close>
  "example_parse text =
     (if text = ascii ''{}'' then Some (JObj [])
      else if text = default_criteriaText then Some (JObj [(ascii ''depth'', JNum (ascii ''1''))])
      else None)"

definition task_a :: Task where
  "task_a =
     \<lparr>t_id = ascii ''1'', t_name = ascii ''alpha'', t_url = ascii ''https://a.example'',
      t_site_type = other, t_status = created, t_criteria = JObj [],
      t_created_at = ascii ''2024-01-01'', t_updated_at = ascii ''2024-01-01''\<rparr>"

definition task_b :: Task where
  "task_b = task_a\<lparr>t_id := ascii ''2'', t_name := ascii ''abacus''\<rparr>"

definition page :: "Task list \<Rightarrow> TaskList" where
  "page ts = \<lparr>tl_items = ts, tl_total = int (length ts), tl_limit = 50, tl_offset = 0\<rparr>"

definition two_reloads :: system where
  \<comment> \<open>The reload of the mount has settled with no tasks; the operator then types
      "a" and "b" in quick succession: reload A for the filter "a" (call 1) and reload
      B for the filter "ab" (call 2) are both in flight.\<close>
  "two_reloads =
     run example_parse mount
       [Settle 1 (ListSettled (Fulfilled (page []))), ChangeQ (ascii ''a''), ChangeQ (ascii ''ab'')]"

definition filter_example :: app_state where
  \<comment> \<open>The operator typed " amazon prime " and chose the status "running".\<close>
  "filter_example = init_app\<lparr>q := ascii '' amazon prime '', status := Some running\<rparr>"

definition blank_params :: list_params where
  \<comment> \<open>Parameters with empty strings in place of absent fields.\<close>
  "blank_params =
     \<lparr>p_limit = Some 50, p_offset = None, p_status = Some [], p_site_type = None, p_q = Some []\<rparr>"

definition blank_name_form :: system where
  \<comment> \<open>The create form with spaces for a name.\<close>
  "blank_name_form = setUrl (ascii ''https://example.com'') (setName (ascii ''  '') mount)"

definition blank_url_form :: system where
  \<comment> \<open>The create form with a tab and a no-break space for a URL.\<close>
  "blank_url_form = setUrl [0x9, 0xA0] (setName (ascii ''catalogue'') mount)"

definition filled_form :: system where
  \<comment> \<open>The create form filled in, the criteria text left at its default.\<close>
  "filled_form =
     setCreateSiteType news
       (setUrl (ascii '' https://example.com '') (setName (ascii ''catalogue'') mount))"

definition bad_criteria_form :: system where
  "bad_criteria_form = setCriteriaText (ascii ''{not json'') filled_form"

definition blank_criteria_form :: system where
  "blank_criteria_form = setCriteriaText (ascii ''  '') filled_form"

definition filled_payload :: TaskCreate where
  \<comment> \<open>What the filled form submits.\<close>
  "filled_payload =
     \<lparr>c_name = ascii ''catalogue'', c_url = ascii ''https://example.com'',
      c_site_type = news, c_criteria = JObj [(ascii ''depth'', JNum (ascii ''1''))]\<rparr>"

definition create_in_flight :: system where
  \<comment> \<open>The operator has pressed the create button on the filled form: \<open>createTask\<close>
      is call 2, beside the reload of the mount.\<close>
  "create_in_flight = onCreate example_parse filled_form"

definition conflict :: "js_string option" where
  \<comment> \<open>The message of a rejection.\<close>
  "conflict = Some (ascii ''name already taken'')"

definition http_500 :: "js_string option" where
  \<comment> \<open>The message of a reload that the backend answered with status 500.\<close>
  "http_500 = Some (ascii ''HTTP 500'')"

definition loaded :: system where
  \<comment> \<open>The reload of the mount has settled with one task: nothing is in flight.\<close>
  "loaded = settle 1 (ListSettled (Fulfilled (page [task_a]))) mount"

definition delete_in_flight :: system where
  \<comment> \<open>The operator has confirmed the deletion of that task.\<close>
  "delete_in_flight = onDelete (ascii ''1'') True loaded"

definition status_in_flight :: system where
  \<comment> \<open>The operator has chosen another status for that task.\<close>
  "status_in_flight = onStatus (ascii ''1'') running loaded"

definition respond :: "fetch_result \<Rightarrow> request \<Rightarrow> fetch_result" where
  \<comment> \<open>A backend that answers every request with the same result.\<close>
  "respond r rq = r"

definition not_found_body :: json where
  "not_found_body = JObj [(ascii ''detail'', JStr (ascii ''not found''))]"

definition validation_detail :: json where
  \<comment> \<open>A list of validation errors, as a backend reports a rejected payload.\<close>
  "validation_detail = JArr [JObj [(ascii ''msg'', JStr (ascii ''field required''))]]"

definition validation_body :: json where
  "validation_body = JObj [(ascii ''detail'', validation_detail)]"

definition example_payload :: TaskCreate where
  "example_payload =
     \<lparr>c_name = ascii ''catalogue'', c_url = ascii ''https://example.com'',
      c_site_type = other, c_criteria = JObj []\<rparr>"

section \<open>Auxiliary facts\<close>

lemma dropWhile_ws_Nil:
  "(\<forall>c\<in>set (dropWhile is_ws s). is_ws c) \<Longrightarrow> dropWhile is_ws s = []"
proof (cases "dropWhile is_ws s")
  case Nil
  then show ?thesis by simp
next
  case (Cons c cs)
  assume all: "\<forall>c\<in>set (dropWhile is_ws s). is_ws c"
  from Cons have "\<not> is_ws c" using hd_dropWhile [of is_ws s] by simp
  with Cons all show ?thesis by simp
qed

lemma trim_Nil_iff: "trim s = [] \<longleftrightarrow> (\<forall>c\<in>set s. is_ws c)"
proof
  assume "trim s = []"
  then have "\<forall>c\<in>set (dropWhile is_ws s). is_ws c"
    by (simp add: trim_def)
  then have "dropWhile is_ws s = []" by (rule dropWhile_ws_Nil)
  then show "\<forall>c\<in>set s. is_ws c" by simp
next
  assume "\<forall>c\<in>set s. is_ws c"
  then show "trim s = []" by (auto simp: trim_def dest: set_dropWhileD)
qed

lemma show_nat_not_Nil: "show_nat n \<noteq> []"
  by (subst show_nat.simps) simp

lemma show_int_not_Nil: "show_int i \<noteq> []"
  by (simp add: show_int_def show_nat_not_Nil)

lemma show_int_50: "show_int 50 = ascii ''50''"
  by (simp add: show_int_def show_nat.simps digit_def ascii_def)

lemma show_int_0: "show_int 0 = ascii ''0''"
  by (simp add: show_int_def show_nat.simps digit_def ascii_def)

lemma status_str_not_Nil: "status_str t \<noteq> []"
  by (cases t) (simp_all add: ascii_def)

lemma site_type_str_not_Nil: "site_type_str t \<noteq> []"
  by (cases t) (simp_all add: ascii_def)

lemmas urlencode_defs =
  urlencode_def ascii_def scalar_def is_high_def is_low_def utf8_def encode_byte_def
  unreserved_def hex_digit_def

lemma urlencode_Nil_iff: "urlencode s = [] \<longleftrightarrow> s = []"
proof -
  have sv: "scalar_values s = [] \<longleftrightarrow> s = []"
    by (induction s rule: scalar_values.induct) auto
  have "utf8 cp \<noteq> []" for cp by (simp add: utf8_def)
  moreover have "encode_byte b \<noteq> []" for b by (simp add: encode_byte_def ascii_def)
  ultimately show ?thesis
    by (cases "scalar_values s") (auto simp: urlencode_def sv)
qed

lemma urlencode_status_str: "urlencode (status_str t) = status_str t"
  by (cases t) (simp_all add: urlencode_defs)

lemma urlencode_site_type_str: "urlencode (site_type_str t) = site_type_str t"
  by (cases t) (simp_all add: urlencode_defs)

lemma urlencode_keys:
  "urlencode (ascii ''limit'') = ascii ''limit''"
  "urlencode (ascii ''offset'') = ascii ''offset''"
  "urlencode (ascii ''status'') = ascii ''status''"
  "urlencode (ascii ''site_type'') = ascii ''site_type''"
  "urlencode (ascii ''q'') = ascii ''q''"
  "urlencode (ascii ''50'') = ascii ''50''"
  "urlencode (ascii ''0'') = ascii ''0''"
  by (simp_all add: urlencode_defs)

lemma join_with_Cons:
  "join_with sep (x # ys) = (if ys = [] then x else x @ sep @ join_with sep ys)"
  by (cases ys) simp_all

lemma join_with_append:
  "join_with sep (xs @ ys) =
     (if xs = [] then join_with sep ys
      else if ys = [] then join_with sep xs
      else join_with sep xs @ sep @ join_with sep ys)"
  by (induction xs) (simp_all add: join_with_Cons)

lemma sp_set_values: "p \<in> set (sp_set k v sp) \<Longrightarrow> snd p = v \<or> p \<in> set sp"
  by (induction sp) (auto split: if_splits)

lemma sp_set_nonempty:
  assumes "\<forall>p\<in>set sp. snd p \<noteq> []" and "v \<noteq> []"
  shows "\<forall>p\<in>set (sp_set k v sp). snd p \<noteq> []"
proof
  fix p
  assume "p \<in> set (sp_set k v sp)"
  then have "snd p = v \<or> p \<in> set sp" by (rule sp_set_values)
  with assms show "snd p \<noteq> []" by auto
qed

lemma listTasks_sp_values: "\<forall>p\<in>set (listTasks_sp params). snd p \<noteq> []"
proof -
  let ?P = "\<lambda>sp. \<forall>p\<in>set sp. snd p \<noteq> []"
  have str: "?P (case v of None \<Rightarrow> sp | Some s \<Rightarrow> if s \<noteq> [] then sp_set k s sp else sp)"
    if "?P sp" for v k sp
  proof (cases v)
    case None
    with that show ?thesis by simp
  next
    case (Some s)
    with that sp_set_nonempty [of sp s k] show ?thesis by (cases "s = []") simp_all
  qed
  have num: "?P (case v of None \<Rightarrow> sp | Some l \<Rightarrow> sp_set k (show_int l) sp)"
    if "?P sp" for v k sp
  proof (cases v)
    case None
    with that show ?thesis by simp
  next
    case (Some l)
    with that sp_set_nonempty [of sp "show_int l" k] show_int_not_Nil [of l] show ?thesis by simp
  qed
  show ?thesis
    unfolding listTasks_sp_def Let_def by (intro str num) simp
qed

lemma listTasks_sp_filters:
  "listTasks_sp (Some (filters s)) =
     [(ascii ''limit'', ascii ''50''), (ascii ''offset'', ascii ''0'')]
     @ (case status s of None \<Rightarrow> [] | Some t \<Rightarrow> [(ascii ''status'', status_str t)])
     @ (case siteType s of None \<Rightarrow> [] | Some t \<Rightarrow> [(ascii ''site_type'', site_type_str t)])
     @ (if trim (q s) = [] then [] else [(ascii ''q'', trim (q s))])"
  by (simp add: listTasks_sp_def filters_def or_undefined_def select_value_def
      show_int_50 show_int_0 status_str_not_Nil site_type_str_not_Nil ascii_def
      split: option.splits)

lemma listTasks_path_filters:
  "listTasks_path (Some (filters s)) =
     ascii ''/tasks?limit=50&offset=0''
     @ (case status s of None \<Rightarrow> [] | Some t \<Rightarrow> ascii ''&status='' @ status_str t)
     @ (case siteType s of None \<Rightarrow> [] | Some t \<Rightarrow> ascii ''&site_type='' @ site_type_str t)
     @ (if trim (q s) = [] then [] else ascii ''&q='' @ urlencode (trim (q s)))"
  apply (simp add: listTasks_path_def listTasks_sp_filters sp_toString_def join_with_append
      urlencode_keys urlencode_status_str urlencode_site_type_str split: option.splits)
  apply (simp add: ascii_def)
  done

section \<open>The query of listTasks\<close>

text \<open>
  C2. Whatever the three filter inputs hold, \<open>listTasks\<close> called with the effective
  filter sets exactly the fields that are present, in the order limit, offset, status,
  site_type, q: the status and the site type when one is selected, and \<open>q\<close> when the
  text is not empty once trimmed, with the trimmed text as its value. The path sent
  is spelled out accordingly, so a field that is absent leaves no \<open>name=\<close> in it. The
  value written for a field that is present is never empty: the enumeration strings
  are not, and the encoding of a non-empty text is not. For any parameters at all,
  with empty strings or without, no search parameter is set to an empty value.
\<close>

theorem listTasks_query_only_present_fields:
  "listTasks_sp (Some (filters s)) =
     [(ascii ''limit'', ascii ''50''), (ascii ''offset'', ascii ''0'')]
     @ (case status s of None \<Rightarrow> [] | Some t \<Rightarrow> [(ascii ''status'', status_str t)])
     @ (case siteType s of None \<Rightarrow> [] | Some t \<Rightarrow> [(ascii ''site_type'', site_type_str t)])
     @ (if trim (q s) = [] then [] else [(ascii ''q'', trim (q s))])
   \<and> listTasks_path (Some (filters s)) =
     ascii ''/tasks?limit=50&offset=0''
     @ (case status s of None \<Rightarrow> [] | Some t \<Rightarrow> ascii ''&status='' @ status_str t)
     @ (case siteType s of None \<Rightarrow> [] | Some t \<Rightarrow> ascii ''&site_type='' @ site_type_str t)
     @ (if trim (q s) = [] then [] else ascii ''&q='' @ urlencode (trim (q s)))
   \<and> (\<forall>t. status_str t \<noteq> [])
   \<and> (\<forall>t. site_type_str t \<noteq> [])
   \<and> (trim (q s) \<noteq> [] \<longrightarrow> urlencode (trim (q s)) \<noteq> [])
   \<and> (\<forall>p\<in>set (listTasks_sp params). snd p \<noteq> [])"
  using listTasks_sp_values [of params]
  by (simp only: listTasks_sp_filters listTasks_path_filters status_str_not_Nil
      site_type_str_not_Nil urlencode_Nil_iff simp_thms)

theorem listTasks_query_only_present_fields_witness:
  "trim (q filter_example) = ascii ''amazon prime''
   \<and> listTasks_sp (Some (filters filter_example)) =
       [(ascii ''limit'', ascii ''50''), (ascii ''offset'', ascii ''0''),
        (ascii ''status'', ascii ''running''), (ascii ''q'', ascii ''amazon prime'')]
   \<and> listTasks_path (Some (filters filter_example)) =
       ascii ''/tasks?limit=50&offset=0&status=running&q=amazon+prime''
   \<and> urlencode (trim (q filter_example)) \<noteq> []
   \<and> listTasks_sp (Some blank_params) = [(ascii ''limit'', ascii ''50'')]
   \<and> snd (ascii ''limit'', ascii ''50'') \<noteq> []"
proof -
  have t: "trim (q filter_example) = ascii ''amazon prime''"
    by (simp add: filter_example_def init_app_def trim_def is_ws_def white_space_def ascii_def)
  have e: "urlencode (ascii ''amazon prime'') = ascii ''amazon+prime''"
    by (simp add: urlencode_defs)
  have b: "listTasks_sp (Some blank_params) = [(ascii ''limit'', ascii ''50'')]"
    by (simp add: listTasks_sp_def blank_params_def show_int_50)
  have m: "(ascii ''limit'', ascii ''50'') \<in> set (listTasks_sp (Some blank_params))"
    by (simp add: b)
  from listTasks_query_only_present_fields [of filter_example "Some blank_params"] t e b m
  show ?thesis
    by (simp add: filter_example_def init_app_def ascii_def)
qed

section \<open>Errors of the transport client\<close>

lemma api_not_ok:
  assumes "api_args call = (path, init)"
    and "fetch (fetch_args path init) = Response st body"
    and "\<not> ok st"
  shows "api fetch call =
     (case to_string (error_detail st body) of
        None \<Rightarrow> Inl CoercionFailure | Some message \<Rightarrow> Inl (HttpError message))"
  using assms by (simp add: api_def req_def)

text \<open>
  C3, as stated, fails: a response whose \<open>detail\<close> is not a string is a non-success
  response with a non-empty detail, and the message is then neither that detail nor
  \<open>HTTP <status>\<close>. A 422 answer to \<open>createTask\<close> that lists the validation errors
  under \<open>detail\<close> gives the message \<open>[object Object]\<close>.
\<close>

theorem req_error_message_counterexample:
  "\<not> ok 422
   \<and> api (respond (Response 422 (Some validation_body))) (CreateTask example_payload)
       = Inl (HttpError (ascii ''[object Object]''))
   \<and> get_prop validation_body (ascii ''detail'') = Some validation_detail
   \<and> truthy validation_detail
   \<and> JStr (ascii ''[object Object]'') \<noteq> validation_detail
   \<and> ascii ''[object Object]'' \<noteq> ascii ''HTTP 422''"
  by (simp add: api_def req_def respond_def ok_def error_detail_def validation_body_def
      validation_detail_def show_nat.simps digit_def ascii_def)

text \<open>
  C3, amended. Each of the four operations, when the response to its request has a
  status outside 200..299, fails with an error whose message is the \<open>detail\<close> of the
  body when the body parses as JSON and its \<open>detail\<close> is a non-empty string, and is
  \<open>HTTP <status>\<close> when the body does not parse, has no \<open>detail\<close>, or its \<open>detail\<close>
  is null, false, zero or the empty string.
\<close>

theorem req_error_message:
  assumes "api_args call = (path, init)"
    and "fetch (fetch_args path init) = Response st body"
    and "\<not> ok st"
  shows "(\<forall>b s. body = Some b \<and> get_prop b (ascii ''detail'') = Some (JStr s) \<and> s \<noteq> []
            \<longrightarrow> api fetch call = Inl (HttpError s))
       \<and> (body = None
            \<or> (\<exists>b. body = Some b
                 \<and> get_prop b (ascii ''detail'')
                     \<in> {None, Some JNull, Some (JBool False), Some (JNum (ascii ''0'')),
                         Some (JStr [])})
            \<longrightarrow> api fetch call = Inl (HttpError (ascii ''HTTP '' @ show_nat st)))"
proof -
  from assms have failure: "api fetch call =
     (case to_string (error_detail st body) of
        None \<Rightarrow> Inl CoercionFailure | Some message \<Rightarrow> Inl (HttpError message))"
    by (rule api_not_ok)
  show ?thesis
  proof (intro conjI allI impI)
    fix b s
    assume "body = Some b \<and> get_prop b (ascii ''detail'') = Some (JStr s) \<and> s \<noteq> []"
    then show "api fetch call = Inl (HttpError s)"
      by (simp add: failure error_detail_def)
  next
    assume "body = None
      \<or> (\<exists>b. body = Some b
           \<and> get_prop b (ascii ''detail'')
               \<in> {None, Some JNull, Some (JBool False), Some (JNum (ascii ''0'')),
                   Some (JStr [])})"
    then show "api fetch call = Inl (HttpError (ascii ''HTTP '' @ show_nat st))"
      by (auto simp: failure error_detail_def)
  qed
qed

theorem req_error_message_witness:
  "\<not> ok 404 \<and> \<not> ok 500
   \<and> get_prop not_found_body (ascii ''detail'') = Some (JStr (ascii ''not found''))
   \<and> api (respond (Response 404 (Some not_found_body))) (DeleteTask (ascii ''7''))
       = Inl (HttpError (ascii ''not found''))
   \<and> api (respond (Response 500 None)) (DeleteTask (ascii ''7''))
       = Inl (HttpError (ascii ''HTTP 500''))"
proof -
  have a: "api_args (DeleteTask (ascii ''7'')) =
      (ascii ''/tasks/'' @ ascii ''7'', Some \<lparr>i_method = ascii ''DELETE'', i_body = None\<rparr>)"
    by simp
  have n: "show_nat 500 = ascii ''500''"
    by (simp add: show_nat.simps digit_def ascii_def)
  have d: "get_prop not_found_body (ascii ''detail'') = Some (JStr (ascii ''not found''))"
    by (simp add: not_found_body_def ascii_def)
  have 1: "api (respond (Response 404 (Some not_found_body))) (DeleteTask (ascii ''7''))
     = Inl (HttpError (ascii ''not found''))"
    using req_error_message [where fetch = "respond (Response 404 (Some not_found_body))"
        and st = 404 and body = "Some not_found_body", OF a] d
    by (simp add: respond_def ok_def ascii_def)
  have 2: "api (respond (Response 500 None)) (DeleteTask (ascii ''7''))
     = Inl (HttpError (ascii ''HTTP 500''))"
    using req_error_message [where fetch = "respond (Response 500 None)" and st = 500
        and body = None, OF a] n
    by (simp add: respond_def ok_def ascii_def)
  from 1 2 d show ?thesis by (simp add: ok_def)
qed

section \<open>Overlapping reloads\<close>

lemmas setter_defs =
  setItems_def setLoading_def setErr_def setQ_def setSiteType_def setStatus_def setName_def
  setUrl_def setCreateSiteType_def setCriteriaText_def

lemma map_of_filter_fst:
  "map_of (filter (\<lambda>p. fst p \<noteq> i) ps) j = (if j = i then None else map_of ps j)"
  by (induction ps) auto

lemma settle_load:
  assumes "map_of (inflight \<sigma>) i = Some (AfterList c)"
  shows "settle i (ListSettled out) \<sigma> =
    load_settled c out (\<sigma>\<lparr>inflight := filter (\<lambda>p. fst p \<noteq> i) (inflight \<sigma>)\<rparr>)"
  using assms by (simp add: settle_def)

lemma items_load_settled:
  "items (app (load_settled c out \<sigma>)) =
     (case out of Fulfilled d \<Rightarrow> tl_items d | Rejected m \<Rightarrow> items (app \<sigma>))"
  by (cases out) (simp_all add: load_settled_def Let_def setter_defs)

lemma inflight_load_settled: "inflight (load_settled c out \<sigma>) = inflight \<sigma>"
  by (cases out) (simp_all add: load_settled_def Let_def setter_defs)

lemma run_Cons: "run parse \<sigma> (e # es) = run parse (step parse \<sigma> e) es"
  by (simp add: run_def)

lemma two_reloads_eval:
  "inflight two_reloads = [(1, AfterList TopLevel), (2, AfterList TopLevel)]"
  "calls two_reloads =
     [ListTasks (Some (filters init_app)),
      ListTasks (Some (filters (init_app\<lparr>q := ascii ''a''\<rparr>))),
      ListTasks (Some (filters (init_app\<lparr>q := ascii ''ab''\<rparr>)))]"
  "items (app two_reloads) = []"
  "q (app two_reloads) = ascii ''ab''"
  by (simp_all add: two_reloads_def run_def mount_def load_def issue_def fresh_def setter_defs
      settle_def load_settled_def Let_def page_def
      effect_def deps_def filters_def init_system_def init_app_def or_undefined_def
      select_value_def trim_def is_ws_def white_space_def ascii_def)

text \<open>
  C1, as stated, fails: \<open>load\<close> applies whatever its own call returns, whenever it
  returns, and carries no mark of the order of issue. Two changes of the filter text
  issue reload A and then reload B; B settles first with one task, A settles after it
  with another, and the list shown in the end is A's, under the filter of B.
\<close>

theorem last_request_wins_counterexample:
  "calls two_reloads =
     [ListTasks (Some (filters init_app)),
      ListTasks (Some (filters (init_app\<lparr>q := ascii ''a''\<rparr>))),
      ListTasks (Some (filters (init_app\<lparr>q := ascii ''ab''\<rparr>)))]
   \<and> inflight two_reloads = [(1, AfterList TopLevel), (2, AfterList TopLevel)]
   \<and> q (app two_reloads) = ascii ''ab''
   \<and> items (app (run example_parse two_reloads
        [Settle 2 (ListSettled (Fulfilled (page [task_b]))),
         Settle 1 (ListSettled (Fulfilled (page [task_a])))]))
      = tl_items (page [task_a])
   \<and> tl_items (page [task_a]) \<noteq> tl_items (page [task_b])"
  by (simp add: two_reloads_eval run_def settle_def load_settled_def Let_def setter_defs page_def
      task_a_def task_b_def ascii_def)

text \<open>
  C1, amended. When any number of reloads in flight settle one after another, in
  whatever order, the list shown afterwards is the result of the last of them that
  settled successfully, or the list shown before if none did: the last response
  wins, by order of completion. So of two reloads A and B, the one whose response
  arrives second is the one displayed.
\<close>

theorem last_settled_reload_wins:
  assumes "distinct (map fst rs)"
    and "\<forall>i\<in>set (map fst rs). \<exists>c. map_of (inflight \<sigma>) i = Some (AfterList c)"
  shows "items (app (run parse \<sigma> (settlements rs))) =
    (case fulfilled rs of [] \<Rightarrow> items (app \<sigma>) | d # ds \<Rightarrow> tl_items (last (d # ds)))"
  using assms
proof (induction rs arbitrary: \<sigma>)
  case Nil
  then show ?case by (simp add: run_def settlements_def)
next
  case (Cons r rs)
  obtain i out where r: "r = (i, out)" by (cases r)
  from Cons.prems r obtain c where c: "map_of (inflight \<sigma>) i = Some (AfterList c)"
    by auto
  let ?\<sigma> = "settle i (ListSettled out) \<sigma>"
  have inflight: "inflight ?\<sigma> = filter (\<lambda>p. fst p \<noteq> i) (inflight \<sigma>)"
    by (simp add: settle_load [OF c] inflight_load_settled)
  have shown: "items (app ?\<sigma>) =
      (case out of Fulfilled d \<Rightarrow> tl_items d | Rejected m \<Rightarrow> items (app \<sigma>))"
    by (cases out) (simp_all add: settle_load [OF c] items_load_settled)
  have "\<forall>j\<in>set (map fst rs). \<exists>c. map_of (inflight ?\<sigma>) j = Some (AfterList c)"
    using Cons.prems r by (auto simp: inflight map_of_filter_fst)
  moreover have "distinct (map fst rs)" using Cons.prems by simp
  ultimately have IH: "items (app (run parse ?\<sigma> (settlements rs))) =
    (case fulfilled rs of [] \<Rightarrow> items (app ?\<sigma>) | d # ds \<Rightarrow> tl_items (last (d # ds)))"
    by (rule Cons.IH [rotated])
  have "run parse \<sigma> (settlements (r # rs)) = run parse ?\<sigma> (settlements rs)"
    by (simp add: settlements_def run_Cons r)
  with IH shown show ?case
    by (cases out) (auto simp: r split: list.splits)
qed

theorem last_settled_reload_wins_witness:
  "distinct (map fst [(2, Fulfilled (page [task_b])), (1 :: nat, Fulfilled (page [task_a]))])
   \<and> map_of (inflight two_reloads) 1 = Some (AfterList TopLevel)
   \<and> map_of (inflight two_reloads) 2 = Some (AfterList TopLevel)
   \<and> items (app (run example_parse two_reloads
        (settlements [(2, Fulfilled (page [task_b])), (1, Fulfilled (page [task_a]))])))
      = [task_a]"
  using last_settled_reload_wins
    [of "[(2, Fulfilled (page [task_b])), (1, Fulfilled (page [task_a]))]"
      two_reloads example_parse]
  by (simp add: two_reloads_eval page_def)

section \<open>Creating a task: local validation\<close>

lemma fresh_bound: "p \<in> set ps \<Longrightarrow> fst p < fresh ps"
  unfolding fresh_def by (induction ps) (auto simp: less_Suc_eq_le max_def)

lemma map_of_fresh: "map_of ps (fresh ps) = None"
  using fresh_bound [of _ ps] by (force simp: map_of_eq_None_iff)

lemma filter_fresh: "filter (\<lambda>p. fst p \<noteq> fresh ps) ps = ps"
  using fresh_bound [of _ ps] by (force simp: filter_id_conv)

lemma newest_issue: "newest (issue call k \<sigma>) = fresh (inflight \<sigma>)"
  by (cases "inflight \<sigma>") (simp_all add: newest_def issue_def)

lemma settle_issue:
  "settle (fresh (inflight \<sigma>)) st (issue call k \<sigma>) =
     (case resume k st (\<sigma>\<lparr>calls := calls \<sigma> @ [call]\<rparr>) of
        None \<Rightarrow> issue call k \<sigma> | Some \<sigma>' \<Rightarrow> \<sigma>')"
  by (simp add: settle_def issue_def map_add_def map_of_fresh filter_fresh split: option.splits)

lemma then_settle_issue:
  "then_settle st (issue call k \<sigma>) =
     (case resume k st (\<sigma>\<lparr>calls := calls \<sigma> @ [call]\<rparr>) of
        None \<Rightarrow> issue call k \<sigma> | Some \<sigma>' \<Rightarrow> \<sigma>')"
  by (simp add: then_settle_def newest_issue settle_issue)

lemma onCreate_valid:
  assumes "trim (name (app \<sigma>)) \<noteq> []" and "trim (url (app \<sigma>)) \<noteq> []"
    and "(if trim (criteriaText (app \<sigma>)) \<noteq> [] then parse (criteriaText (app \<sigma>))
         else Some (JObj [])) = Some criteria"
  shows "onCreate parse \<sigma> =
    issue
      (CreateTask \<lparr>c_name = trim (name (app \<sigma>)), c_url = trim (url (app \<sigma>)),
                   c_site_type = createSiteType (app \<sigma>), c_criteria = criteria\<rparr>)
      (AfterCreate (filters (app \<sigma>)))
      (setLoading True (setErr None \<sigma>))"
  using assms by (simp add: onCreate_def Let_def)

lemma onCreate_cases:
  "onCreate parse \<sigma> = setErr (Some msg_name) \<sigma>
   \<or> onCreate parse \<sigma> = setErr (Some msg_url) \<sigma>
   \<or> onCreate parse \<sigma> = setErr (Some msg_criteria) \<sigma>
   \<or> (\<exists>call. onCreate parse \<sigma> =
         issue call (AfterCreate (filters (app \<sigma>))) (setLoading True (setErr None \<sigma>)))"
  by (auto simp: onCreate_def Let_def setter_defs split: option.splits)

text \<open>
  C4. When the name in the create form is empty or consists of white space only,
  \<open>onCreate\<close> does nothing but set the error to the message asking for a name: no
  call is logged and none is in flight that was not before. When the URL is blank no
  call is made either; the error is then the message asking for a URL, unless the
  name is blank too, which is checked first and reported instead.
\<close>

theorem create_blank_name_or_url_no_call:
  "((\<forall>c\<in>set (name (app \<sigma>)). is_ws c) \<longrightarrow>
       onCreate parse \<sigma> = setErr (Some msg_name) \<sigma>
       \<and> calls (onCreate parse \<sigma>) = calls \<sigma>
       \<and> inflight (onCreate parse \<sigma>) = inflight \<sigma>
       \<and> err (app (onCreate parse \<sigma>)) = Some msg_name)
   \<and> ((\<forall>c\<in>set (url (app \<sigma>)). is_ws c) \<longrightarrow>
       calls (onCreate parse \<sigma>) = calls \<sigma>
       \<and> inflight (onCreate parse \<sigma>) = inflight \<sigma>
       \<and> err (app (onCreate parse \<sigma>)) =
           Some (if \<forall>c\<in>set (name (app \<sigma>)). is_ws c then msg_name else msg_url))"
  by (simp add: onCreate_def Let_def setter_defs trim_Nil_iff [symmetric])

theorem create_blank_name_or_url_no_call_witness:
  "trim (name (app blank_name_form)) = []
   \<and> calls (onCreate example_parse blank_name_form) = calls blank_name_form
   \<and> inflight (onCreate example_parse blank_name_form) = inflight blank_name_form
   \<and> err (app (onCreate example_parse blank_name_form)) = Some msg_name
   \<and> trim (url (app blank_url_form)) = []
   \<and> trim (name (app blank_url_form)) = ascii ''catalogue''
   \<and> calls (onCreate example_parse blank_url_form) = calls blank_url_form
   \<and> inflight (onCreate example_parse blank_url_form) = inflight blank_url_form
   \<and> err (app (onCreate example_parse blank_url_form)) = Some msg_url"
proof -
  have n: "trim (name (app blank_name_form)) = []"
    by (simp add: blank_name_form_def setter_defs trim_def is_ws_def white_space_def ascii_def)
  have u: "trim (url (app blank_url_form)) = []"
    by (simp add: blank_url_form_def setter_defs trim_def is_ws_def white_space_def ascii_def)
  have nn: "trim (name (app blank_url_form)) = ascii ''catalogue''"
    by (simp add: blank_url_form_def setter_defs trim_def is_ws_def white_space_def ascii_def)
  have n': "\<forall>c\<in>set (name (app blank_name_form)). is_ws c"
    using n by (simp add: trim_Nil_iff)
  have u': "\<forall>c\<in>set (url (app blank_url_form)). is_ws c"
    using u by (simp add: trim_Nil_iff)
  have nn': "\<not> (\<forall>c\<in>set (name (app blank_url_form)). is_ws c)"
    using nn by (simp add: trim_Nil_iff [symmetric] ascii_def)
  from n' create_blank_name_or_url_no_call [of blank_name_form example_parse]
  have 1: "calls (onCreate example_parse blank_name_form) = calls blank_name_form"
    "inflight (onCreate example_parse blank_name_form) = inflight blank_name_form"
    "err (app (onCreate example_parse blank_name_form)) = Some msg_name"
    by blast+
  from u' create_blank_name_or_url_no_call [of blank_url_form example_parse]
  have 2: "calls (onCreate example_parse blank_url_form) = calls blank_url_form"
    "inflight (onCreate example_parse blank_url_form) = inflight blank_url_form"
    "err (app (onCreate example_parse blank_url_form)) =
       Some (if \<forall>c\<in>set (name (app blank_url_form)). is_ws c then msg_name else msg_url)"
    by blast+
  from 2(3) nn' have 3: "err (app (onCreate example_parse blank_url_form)) = Some msg_url"
    by simp
  from n u nn 1 2(1,2) 3 show ?thesis by simp
qed

text \<open>
  C5. A criteria text that is not blank and that \<open>JSON.parse\<close> rejects stops
  \<open>onCreate\<close> before any call; with a name and a URL that pass their own checks,
  which come first, the error is the message that the criteria must be valid JSON.
  With a blank criteria text and a valid name and URL, \<open>onCreate\<close> calls
  \<open>createTask\<close> with the empty object as criteria, without consulting \<open>JSON.parse\<close>.
\<close>

theorem create_criteria_validation:
  "(trim (criteriaText (app \<sigma>)) \<noteq> [] \<and> parse (criteriaText (app \<sigma>)) = None \<longrightarrow>
       calls (onCreate parse \<sigma>) = calls \<sigma>
       \<and> inflight (onCreate parse \<sigma>) = inflight \<sigma>
       \<and> (trim (name (app \<sigma>)) \<noteq> [] \<and> trim (url (app \<sigma>)) \<noteq> [] \<longrightarrow>
            err (app (onCreate parse \<sigma>)) = Some msg_criteria))
   \<and> (trim (criteriaText (app \<sigma>)) = [] \<and> trim (name (app \<sigma>)) \<noteq> [] \<and> trim (url (app \<sigma>)) \<noteq> [] \<longrightarrow>
       calls (onCreate parse \<sigma>) =
         calls \<sigma> @ [CreateTask \<lparr>c_name = trim (name (app \<sigma>)), c_url = trim (url (app \<sigma>)),
                                  c_site_type = createSiteType (app \<sigma>), c_criteria = JObj []\<rparr>])"
  by (simp add: onCreate_def Let_def setter_defs issue_def)

lemma filled_form_eval:
  "trim (name (app filled_form)) = ascii ''catalogue''"
  "trim (url (app filled_form)) = ascii ''https://example.com''"
  "createSiteType (app filled_form) = news"
  "criteriaText (app filled_form) = default_criteriaText"
  "calls filled_form = [ListTasks (Some (filters init_app))]"
  "inflight filled_form = [(1, AfterList TopLevel)]"
  by (simp_all add: filled_form_def mount_def load_def issue_def fresh_def setter_defs
      init_system_def init_app_def trim_def is_ws_def white_space_def ascii_def)

theorem create_criteria_validation_witness:
  "trim (criteriaText (app bad_criteria_form)) \<noteq> []
   \<and> example_parse (criteriaText (app bad_criteria_form)) = None
   \<and> trim (name (app bad_criteria_form)) \<noteq> [] \<and> trim (url (app bad_criteria_form)) \<noteq> []
   \<and> calls (onCreate example_parse bad_criteria_form) = calls bad_criteria_form
   \<and> err (app (onCreate example_parse bad_criteria_form)) = Some msg_criteria
   \<and> trim (criteriaText (app blank_criteria_form)) = []
   \<and> calls (onCreate example_parse blank_criteria_form) =
       calls blank_criteria_form
       @ [CreateTask \<lparr>c_name = ascii ''catalogue'', c_url = ascii ''https://example.com'',
                      c_site_type = news, c_criteria = JObj []\<rparr>]"
proof -
  have b: "trim (criteriaText (app bad_criteria_form)) \<noteq> []"
    "example_parse (criteriaText (app bad_criteria_form)) = None"
    by (simp_all add: bad_criteria_form_def setter_defs example_parse_def default_criteriaText_def
        trim_def is_ws_def white_space_def ascii_def)
  have e: "trim (criteriaText (app blank_criteria_form)) = []"
    by (simp add: blank_criteria_form_def setter_defs trim_def is_ws_def white_space_def ascii_def)
  have f: "trim (name (app bad_criteria_form)) = ascii ''catalogue''"
    "trim (url (app bad_criteria_form)) = ascii ''https://example.com''"
    "trim (name (app blank_criteria_form)) = ascii ''catalogue''"
    "trim (url (app blank_criteria_form)) = ascii ''https://example.com''"
    "createSiteType (app blank_criteria_form) = news"
    using filled_form_eval
    by (simp_all add: bad_criteria_form_def blank_criteria_form_def setter_defs)
  from create_criteria_validation [of bad_criteria_form example_parse]
    create_criteria_validation [of blank_criteria_form example_parse] b e f
  show ?thesis by (simp add: ascii_def)
qed

section \<open>Creating a task: the outcome of createTask\<close>

lemma filled_form_valid:
  "trim (name (app filled_form)) \<noteq> []"
  "trim (url (app filled_form)) \<noteq> []"
  "trim (criteriaText (app filled_form)) \<noteq> []"
  "example_parse (criteriaText (app filled_form)) = Some (JObj [(ascii ''depth'', JNum (ascii ''1''))])"
  "(if trim (criteriaText (app filled_form)) \<noteq> []
    then example_parse (criteriaText (app filled_form)) else Some (JObj []))
   = Some (JObj [(ascii ''depth'', JNum (ascii ''1''))])"
  by (simp_all add: filled_form_eval)
    (simp_all add: ascii_def example_parse_def default_criteriaText_def trim_def is_ws_def
      white_space_def)

lemma filled_form_fields:
  "filters (app filled_form) = filters init_app"
  "name (app filled_form) = ascii ''catalogue''"
  "url (app filled_form) = ascii '' https://example.com ''"
  by (simp_all add: filled_form_def mount_def load_def issue_def setter_defs filters_def
      init_system_def init_app_def)

lemma example_trims:
  "trim (ascii ''catalogue'') = ascii ''catalogue''"
  "trim (ascii '' https://example.com '') = ascii ''https://example.com''"
  by (simp_all add: trim_def is_ws_def white_space_def ascii_def)

lemma create_in_flight_issue:
  "create_in_flight =
     issue (CreateTask filled_payload) (AfterCreate (filters init_app))
       (setLoading True (setErr None filled_form))"
  unfolding create_in_flight_def
  using onCreate_valid [of filled_form example_parse, OF filled_form_valid(1,2,5)]
  by (simp add: filled_form_eval filled_form_fields filled_payload_def example_trims)

lemma create_in_flight_eval:
  "inflight create_in_flight = [(1, AfterList TopLevel), (2, AfterCreate (filters init_app))]"
  "calls create_in_flight = [ListTasks (Some (filters init_app)), CreateTask filled_payload]"
  "name (app create_in_flight) = ascii ''catalogue''"
  "url (app create_in_flight) = ascii '' https://example.com ''"
  "createSiteType (app create_in_flight) = news"
  "criteriaText (app create_in_flight) = default_criteriaText"
  by (simp_all add: create_in_flight_issue issue_def setter_defs fresh_def filled_form_eval
      filled_form_fields)

lemma calls_settle_list: "calls (settle j (ListSettled out) \<sigma>) = calls \<sigma>"
proof (cases "map_of (inflight \<sigma>) j")
  case None
  then show ?thesis by (simp add: settle_def)
next
  case (Some k)
  then show ?thesis
    by (cases k; cases out) (simp_all add: settle_def load_settled_def Let_def setter_defs)
qed

lemma settle_create:
  assumes "map_of (inflight \<sigma>) i = Some (AfterCreate f)"
  shows "settle i (TaskSettled out) \<sigma> =
    onCreate_settled f out (\<sigma>\<lparr>inflight := filter (\<lambda>p. fst p \<noteq> i) (inflight \<sigma>)\<rparr>)"
  using assms by (simp add: settle_def)

lemma settle_create_fulfilled:
  assumes "map_of (inflight \<sigma>) i = Some (AfterCreate f)"
  shows "settle i (TaskSettled (Fulfilled t)) \<sigma> =
    issue (ListTasks (Some f)) (AfterList InCreate)
      (setErr None (setLoading True
        (setCriteriaText default_criteriaText (setUrl [] (setName []
          (\<sigma>\<lparr>inflight := filter (\<lambda>p. fst p \<noteq> i) (inflight \<sigma>)\<rparr>))))))"
  by (simp add: settle_create [OF assms] onCreate_settled_def load_def)

lemma after_load_settled:
  "items (app (load_settled c (Fulfilled d) \<sigma>)) = tl_items d"
  "items (app (load_settled c (Rejected m) \<sigma>)) = items (app \<sigma>)"
  "loading (app (load_settled c out \<sigma>)) = False"
  "err (app (load_settled c (Fulfilled d) \<sigma>)) = err (app \<sigma>)"
  "err (app (load_settled c (Rejected m) \<sigma>)) = Some (message_or m msg_load)"
  by (cases out; simp add: load_settled_def Let_def setter_defs)+

lemma then_settle_reload:
  "then_settle (ListSettled out) (issue (ListTasks p) (AfterList c) \<sigma>) =
     load_settled c out (\<sigma>\<lparr>calls := calls \<sigma> @ [ListTasks p]\<rparr>)"
  by (simp add: then_settle_issue)

lemma newest_in_flight:
  "map_of (inflight (issue call k \<sigma>)) (newest (issue call k \<sigma>)) = Some k"
  by (simp add: newest_issue) (simp add: issue_def map_add_def map_of_fresh)

text \<open>
  C6. When the \<open>createTask\<close> call of a create action is fulfilled, whatever else
  happened meanwhile, the name, the URL and the criteria text are back at the values
  they have in the initial state, and a reload begins: the loading flag is set, the
  error is cleared, \<open>listTasks\<close> is called once, with the filter the action started
  under, and that call is in flight for \<open>load\<close> inside \<open>onCreate\<close>. Nothing the
  effect depends on has changed, so no second reload follows, and the settlement of
  the reload makes no further call. The reload is carried out: whenever its call
  settles, the list shown becomes the items of the response if it is fulfilled, and
  stays with the error set to the message of the failure if it is rejected; either
  way the loading flag is cleared and the call is no longer in flight. For an action
  that runs on its own from a form that passes validation, the log of calls grows
  by the \<open>createTask\<close> call and one \<open>listTasks\<close> call, nothing is left in flight, and
  the list, the error and the loading flag end as the reload's outcome makes them.
\<close>

theorem create_success_resets_and_reloads_once:
  "(map_of (inflight \<sigma>) i = Some (AfterCreate f) \<longrightarrow>
      name (app (settle i (TaskSettled (Fulfilled t)) \<sigma>)) = name init_app
      \<and> url (app (settle i (TaskSettled (Fulfilled t)) \<sigma>)) = url init_app
      \<and> criteriaText (app (settle i (TaskSettled (Fulfilled t)) \<sigma>)) = criteriaText init_app
      \<and> calls (settle i (TaskSettled (Fulfilled t)) \<sigma>) = calls \<sigma> @ [ListTasks (Some f)]
      \<and> deps (filters (app (settle i (TaskSettled (Fulfilled t)) \<sigma>))) = deps (filters (app \<sigma>))
      \<and> calls (settle j (ListSettled out) (settle i (TaskSettled (Fulfilled t)) \<sigma>))
          = calls \<sigma> @ [ListTasks (Some f)]
      \<and> loading (app (settle i (TaskSettled (Fulfilled t)) \<sigma>))
      \<and> err (app (settle i (TaskSettled (Fulfilled t)) \<sigma>)) = None
      \<and> items (app (settle i (TaskSettled (Fulfilled t)) \<sigma>)) = items (app \<sigma>)
      \<and> map_of (inflight (settle i (TaskSettled (Fulfilled t)) \<sigma>))
           (newest (settle i (TaskSettled (Fulfilled t)) \<sigma>)) = Some (AfterList InCreate)
      \<and> items (app (then_settle (ListSettled (Fulfilled d))
           (settle i (TaskSettled (Fulfilled t)) \<sigma>))) = tl_items d
      \<and> err (app (then_settle (ListSettled (Fulfilled d))
           (settle i (TaskSettled (Fulfilled t)) \<sigma>))) = None
      \<and> items (app (then_settle (ListSettled (Rejected m))
           (settle i (TaskSettled (Fulfilled t)) \<sigma>))) = items (app \<sigma>)
      \<and> err (app (then_settle (ListSettled (Rejected m))
           (settle i (TaskSettled (Fulfilled t)) \<sigma>))) = Some (message_or m msg_load)
      \<and> \<not> loading (app (then_settle (ListSettled out)
           (settle i (TaskSettled (Fulfilled t)) \<sigma>))))
   \<and> (map_of (inflight \<sigma>') r = Some (AfterList InCreate) \<longrightarrow>
      items (app (settle r (ListSettled (Fulfilled d)) \<sigma>')) = tl_items d
      \<and> err (app (settle r (ListSettled (Fulfilled d)) \<sigma>')) = err (app \<sigma>')
      \<and> items (app (settle r (ListSettled (Rejected m)) \<sigma>')) = items (app \<sigma>')
      \<and> err (app (settle r (ListSettled (Rejected m)) \<sigma>')) = Some (message_or m msg_load)
      \<and> \<not> loading (app (settle r (ListSettled out) \<sigma>'))
      \<and> map_of (inflight (settle r (ListSettled out) \<sigma>')) r = None)
   \<and> (trim (name (app \<sigma>)) \<noteq> [] \<and> trim (url (app \<sigma>)) \<noteq> []
       \<and> (if trim (criteriaText (app \<sigma>)) \<noteq> [] then parse (criteriaText (app \<sigma>))
           else Some (JObj [])) = Some criteria \<longrightarrow>
      calls (then_settle (ListSettled out) (then_settle (TaskSettled (Fulfilled t)) (onCreate parse \<sigma>)))
        = calls \<sigma>
          @ [CreateTask \<lparr>c_name = trim (name (app \<sigma>)), c_url = trim (url (app \<sigma>)),
                          c_site_type = createSiteType (app \<sigma>), c_criteria = criteria\<rparr>,
             ListTasks (Some (filters (app \<sigma>)))]
      \<and> inflight (then_settle (ListSettled out) (then_settle (TaskSettled (Fulfilled t)) (onCreate parse \<sigma>)))
        = inflight \<sigma>
      \<and> name (app (then_settle (TaskSettled (Fulfilled t)) (onCreate parse \<sigma>))) = name init_app
      \<and> url (app (then_settle (TaskSettled (Fulfilled t)) (onCreate parse \<sigma>))) = url init_app
      \<and> criteriaText (app (then_settle (TaskSettled (Fulfilled t)) (onCreate parse \<sigma>)))
        = criteriaText init_app
      \<and> items (app (then_settle (ListSettled out)
           (then_settle (TaskSettled (Fulfilled t)) (onCreate parse \<sigma>))))
        = (case out of Fulfilled d \<Rightarrow> tl_items d | Rejected m \<Rightarrow> items (app \<sigma>))
      \<and> err (app (then_settle (ListSettled out)
           (then_settle (TaskSettled (Fulfilled t)) (onCreate parse \<sigma>))))
        = (case out of Fulfilled d \<Rightarrow> None | Rejected m \<Rightarrow> Some (message_or m msg_load))
      \<and> \<not> loading (app (then_settle (ListSettled out)
           (then_settle (TaskSettled (Fulfilled t)) (onCreate parse \<sigma>)))))"
proof (intro conjI impI)
  assume p: "map_of (inflight \<sigma>) i = Some (AfterCreate f)"
  let ?\<sigma> = "settle i (TaskSettled (Fulfilled t)) \<sigma>"
  note s = settle_create_fulfilled [OF p]
  show "name (app ?\<sigma>) = name init_app" "url (app ?\<sigma>) = url init_app"
    "criteriaText (app ?\<sigma>) = criteriaText init_app"
    "calls ?\<sigma> = calls \<sigma> @ [ListTasks (Some f)]"
    "deps (filters (app ?\<sigma>)) = deps (filters (app \<sigma>))"
    "loading (app ?\<sigma>)" "err (app ?\<sigma>) = None" "items (app ?\<sigma>) = items (app \<sigma>)"
    by (simp_all add: s issue_def setter_defs deps_def filters_def init_app_def)
  then show "calls (settle j (ListSettled out) ?\<sigma>) = calls \<sigma> @ [ListTasks (Some f)]"
    by (simp add: calls_settle_list)
  show "map_of (inflight ?\<sigma>) (newest ?\<sigma>) = Some (AfterList InCreate)"
    unfolding s by (rule newest_in_flight)
  show "items (app (then_settle (ListSettled (Fulfilled d)) ?\<sigma>)) = tl_items d"
    "err (app (then_settle (ListSettled (Fulfilled d)) ?\<sigma>)) = None"
    "items (app (then_settle (ListSettled (Rejected m)) ?\<sigma>)) = items (app \<sigma>)"
    "err (app (then_settle (ListSettled (Rejected m)) ?\<sigma>)) = Some (message_or m msg_load)"
    "\<not> loading (app (then_settle (ListSettled out) ?\<sigma>))"
    by (simp_all add: s then_settle_reload after_load_settled setter_defs)
next
  assume r: "map_of (inflight \<sigma>') r = Some (AfterList InCreate)"
  show "items (app (settle r (ListSettled (Fulfilled d)) \<sigma>')) = tl_items d"
    "err (app (settle r (ListSettled (Fulfilled d)) \<sigma>')) = err (app \<sigma>')"
    "items (app (settle r (ListSettled (Rejected m)) \<sigma>')) = items (app \<sigma>')"
    "err (app (settle r (ListSettled (Rejected m)) \<sigma>')) = Some (message_or m msg_load)"
    "\<not> loading (app (settle r (ListSettled out) \<sigma>'))"
    "map_of (inflight (settle r (ListSettled out) \<sigma>')) r = None"
    by (simp_all add: settle_load [OF r] after_load_settled inflight_load_settled map_of_filter_fst)
next
  assume v: "trim (name (app \<sigma>)) \<noteq> [] \<and> trim (url (app \<sigma>)) \<noteq> []
       \<and> (if trim (criteriaText (app \<sigma>)) \<noteq> [] then parse (criteriaText (app \<sigma>))
           else Some (JObj [])) = Some criteria"
  then have start: "onCreate parse \<sigma> =
    issue
      (CreateTask \<lparr>c_name = trim (name (app \<sigma>)), c_url = trim (url (app \<sigma>)),
                   c_site_type = createSiteType (app \<sigma>), c_criteria = criteria\<rparr>)
      (AfterCreate (filters (app \<sigma>)))
      (setLoading True (setErr None \<sigma>))"
    by (simp add: onCreate_valid)
  let ?\<sigma>1 = "then_settle (TaskSettled (Fulfilled t)) (onCreate parse \<sigma>)"
  have mid: "?\<sigma>1 =
    issue (ListTasks (Some (filters (app \<sigma>)))) (AfterList InCreate)
      (setErr None (setLoading True
        (setCriteriaText default_criteriaText (setUrl [] (setName []
          ((setLoading True (setErr None \<sigma>))
             \<lparr>calls := calls \<sigma> @
               [CreateTask \<lparr>c_name = trim (name (app \<sigma>)), c_url = trim (url (app \<sigma>)),
                   c_site_type = createSiteType (app \<sigma>), c_criteria = criteria\<rparr>]\<rparr>))))))"
    by (simp add: start then_settle_issue onCreate_settled_def load_def setter_defs)
  show "name (app ?\<sigma>1) = name init_app" "url (app ?\<sigma>1) = url init_app"
    "criteriaText (app ?\<sigma>1) = criteriaText init_app"
    by (simp_all add: mid issue_def setter_defs init_app_def)
  show "calls (then_settle (ListSettled out) ?\<sigma>1)
        = calls \<sigma>
          @ [CreateTask \<lparr>c_name = trim (name (app \<sigma>)), c_url = trim (url (app \<sigma>)),
                          c_site_type = createSiteType (app \<sigma>), c_criteria = criteria\<rparr>,
             ListTasks (Some (filters (app \<sigma>)))]"
    by (cases out) (simp_all add: mid then_settle_issue load_settled_def Let_def setter_defs)
  show "inflight (then_settle (ListSettled out) ?\<sigma>1) = inflight \<sigma>"
    by (cases out) (simp_all add: mid then_settle_issue load_settled_def Let_def setter_defs)
  show "items (app (then_settle (ListSettled out) ?\<sigma>1))
        = (case out of Fulfilled d \<Rightarrow> tl_items d | Rejected m \<Rightarrow> items (app \<sigma>))"
    "err (app (then_settle (ListSettled out) ?\<sigma>1))
        = (case out of Fulfilled d \<Rightarrow> None | Rejected m \<Rightarrow> Some (message_or m msg_load))"
    "\<not> loading (app (then_settle (ListSettled out) ?\<sigma>1))"
    by (cases out; simp add: mid then_settle_reload after_load_settled setter_defs)+
qed

lemma reload_in_flight_eval:
  "inflight (settle 2 (TaskSettled (Fulfilled task_a)) create_in_flight) =
     [(1, AfterList TopLevel), (2, AfterList InCreate)]"
  "items (app create_in_flight) = []"
  "items (app filled_form) = []"
  by (simp_all add: settle_create_fulfilled create_in_flight_eval create_in_flight_issue
      issue_def setter_defs fresh_def filled_form_def mount_def load_def init_system_def
      init_app_def)

theorem create_success_resets_and_reloads_once_witness:
  "map_of (inflight create_in_flight) 2 = Some (AfterCreate (filters init_app))
   \<and> name (app (settle 2 (TaskSettled (Fulfilled task_a)) create_in_flight)) = []
   \<and> url (app (settle 2 (TaskSettled (Fulfilled task_a)) create_in_flight)) = []
   \<and> criteriaText (app (settle 2 (TaskSettled (Fulfilled task_a)) create_in_flight))
       = default_criteriaText
   \<and> calls (settle 2 (TaskSettled (Fulfilled task_a)) create_in_flight) =
       [ListTasks (Some (filters init_app)), CreateTask filled_payload,
        ListTasks (Some (filters init_app))]
   \<and> map_of (inflight (settle 2 (TaskSettled (Fulfilled task_a)) create_in_flight)) 2
       = Some (AfterList InCreate)
   \<and> items (app (settle 2 (ListSettled (Fulfilled (page [task_a, task_b])))
        (settle 2 (TaskSettled (Fulfilled task_a)) create_in_flight))) = [task_a, task_b]
   \<and> \<not> loading (app (settle 2 (ListSettled (Fulfilled (page [task_a, task_b])))
        (settle 2 (TaskSettled (Fulfilled task_a)) create_in_flight)))
   \<and> err (app (settle 2 (ListSettled (Rejected http_500))
        (settle 2 (TaskSettled (Fulfilled task_a)) create_in_flight))) = http_500
   \<and> trim (name (app filled_form)) \<noteq> [] \<and> trim (url (app filled_form)) \<noteq> []
   \<and> calls (then_settle (ListSettled (Fulfilled (page [task_a, task_b])))
        (then_settle (TaskSettled (Fulfilled task_a)) (onCreate example_parse filled_form))) =
       [ListTasks (Some (filters init_app)), CreateTask filled_payload,
        ListTasks (Some (filters init_app))]
   \<and> items (app (then_settle (ListSettled (Fulfilled (page [task_a, task_b])))
        (then_settle (TaskSettled (Fulfilled task_a)) (onCreate example_parse filled_form))))
       = [task_a, task_b]
   \<and> \<not> loading (app (then_settle (ListSettled (Fulfilled (page [task_a, task_b])))
        (then_settle (TaskSettled (Fulfilled task_a)) (onCreate example_parse filled_form))))"
proof -
  have p: "map_of (inflight create_in_flight) 2 = Some (AfterCreate (filters init_app))"
    by (simp add: create_in_flight_eval)
  have r: "map_of (inflight (settle 2 (TaskSettled (Fulfilled task_a)) create_in_flight)) 2
       = Some (AfterList InCreate)"
    by (simp add: reload_in_flight_eval)
  note v = filled_form_valid(1,2,5)
  note T1 = create_success_resets_and_reloads_once
    [where \<sigma> = create_in_flight and i = 2 and f = "filters init_app" and t = task_a
       and \<sigma>' = "settle 2 (TaskSettled (Fulfilled task_a)) create_in_flight" and r = 2
       and d = "page [task_a, task_b]" and out = "Fulfilled (page [task_a, task_b])"
       and m = http_500]
  note T2 = create_success_resets_and_reloads_once
    [where \<sigma> = filled_form and parse = example_parse and t = task_a
       and criteria = "JObj [(ascii ''depth'', JNum (ascii ''1''))]"
       and out = "Fulfilled (page [task_a, task_b])"]
  from p r T1
  have a: "name (app (settle 2 (TaskSettled (Fulfilled task_a)) create_in_flight)) = name init_app"
    "url (app (settle 2 (TaskSettled (Fulfilled task_a)) create_in_flight)) = url init_app"
    "criteriaText (app (settle 2 (TaskSettled (Fulfilled task_a)) create_in_flight))
       = criteriaText init_app"
    "calls (settle 2 (TaskSettled (Fulfilled task_a)) create_in_flight) =
       calls create_in_flight @ [ListTasks (Some (filters init_app))]"
    "items (app (settle 2 (ListSettled (Fulfilled (page [task_a, task_b])))
        (settle 2 (TaskSettled (Fulfilled task_a)) create_in_flight)))
       = tl_items (page [task_a, task_b])"
    "\<not> loading (app (settle 2 (ListSettled (Fulfilled (page [task_a, task_b])))
        (settle 2 (TaskSettled (Fulfilled task_a)) create_in_flight)))"
    "err (app (settle 2 (ListSettled (Rejected http_500))
        (settle 2 (TaskSettled (Fulfilled task_a)) create_in_flight)))
       = Some (message_or http_500 msg_load)"
    by blast+
  from v T2
  have b: "calls (then_settle (ListSettled (Fulfilled (page [task_a, task_b])))
        (then_settle (TaskSettled (Fulfilled task_a)) (onCreate example_parse filled_form))) =
       calls filled_form
       @ [CreateTask \<lparr>c_name = trim (name (app filled_form)), c_url = trim (url (app filled_form)),
                      c_site_type = createSiteType (app filled_form),
                      c_criteria = JObj [(ascii ''depth'', JNum (ascii ''1''))]\<rparr>,
          ListTasks (Some (filters (app filled_form)))]"
    "items (app (then_settle (ListSettled (Fulfilled (page [task_a, task_b])))
        (then_settle (TaskSettled (Fulfilled task_a)) (onCreate example_parse filled_form))))
       = (case Fulfilled (page [task_a, task_b]) of
            Fulfilled d \<Rightarrow> tl_items d | Rejected m \<Rightarrow> items (app filled_form))"
    "\<not> loading (app (then_settle (ListSettled (Fulfilled (page [task_a, task_b])))
        (then_settle (TaskSettled (Fulfilled task_a)) (onCreate example_parse filled_form))))"
    by blast+
  from p r v a b show ?thesis
    by (simp add: create_in_flight_eval filled_form_eval filled_form_fields filled_payload_def
        example_trims init_app_def page_def message_or_def http_500_def)
qed

lemmas handler_defs =
  load_def load_settled_def onCreate_settled_def onDelete_def onDelete_settled_def onStatus_def
  onStatus_settled_def issue_def Let_def

lemma onCreate_form:
  "name (app (onCreate parse \<sigma>)) = name (app \<sigma>)"
  "url (app (onCreate parse \<sigma>)) = url (app \<sigma>)"
  "createSiteType (app (onCreate parse \<sigma>)) = createSiteType (app \<sigma>)"
  "criteriaText (app (onCreate parse \<sigma>)) = criteriaText (app \<sigma>)"
  using onCreate_cases [of parse \<sigma>] by (auto simp: setter_defs issue_def)

text \<open>
  C7. \<open>onCreate\<close> itself never changes the name, the URL, the site type or the
  criteria text of the create form, and when its \<open>createTask\<close> call is rejected,
  whatever else happened meanwhile, these four fields are as they were, no call is
  made, and the error is the message of the rejection, or the creation-error text
  when the thrown value has no message. In particular, for an action that runs on
  its own from a form that passes validation, the four fields after the failure are
  those the operator entered.
\<close>

theorem create_failure_keeps_form:
  "name (app (onCreate parse \<sigma>)) = name (app \<sigma>)
   \<and> url (app (onCreate parse \<sigma>)) = url (app \<sigma>)
   \<and> createSiteType (app (onCreate parse \<sigma>)) = createSiteType (app \<sigma>)
   \<and> criteriaText (app (onCreate parse \<sigma>)) = criteriaText (app \<sigma>)
   \<and> (map_of (inflight \<sigma>) i = Some (AfterCreate f) \<longrightarrow>
        name (app (settle i (TaskSettled (Rejected m)) \<sigma>)) = name (app \<sigma>)
        \<and> url (app (settle i (TaskSettled (Rejected m)) \<sigma>)) = url (app \<sigma>)
        \<and> createSiteType (app (settle i (TaskSettled (Rejected m)) \<sigma>)) = createSiteType (app \<sigma>)
        \<and> criteriaText (app (settle i (TaskSettled (Rejected m)) \<sigma>)) = criteriaText (app \<sigma>)
        \<and> err (app (settle i (TaskSettled (Rejected m)) \<sigma>)) = Some (message_or m msg_create)
        \<and> calls (settle i (TaskSettled (Rejected m)) \<sigma>) = calls \<sigma>)
   \<and> (trim (name (app \<sigma>)) \<noteq> [] \<and> trim (url (app \<sigma>)) \<noteq> []
       \<and> (if trim (criteriaText (app \<sigma>)) \<noteq> [] then parse (criteriaText (app \<sigma>))
           else Some (JObj [])) = Some criteria \<longrightarrow>
        name (app (then_settle (TaskSettled (Rejected m)) (onCreate parse \<sigma>))) = name (app \<sigma>)
        \<and> url (app (then_settle (TaskSettled (Rejected m)) (onCreate parse \<sigma>))) = url (app \<sigma>)
        \<and> createSiteType (app (then_settle (TaskSettled (Rejected m)) (onCreate parse \<sigma>)))
            = createSiteType (app \<sigma>)
        \<and> criteriaText (app (then_settle (TaskSettled (Rejected m)) (onCreate parse \<sigma>)))
            = criteriaText (app \<sigma>)
        \<and> err (app (then_settle (TaskSettled (Rejected m)) (onCreate parse \<sigma>)))
            = Some (message_or m msg_create))"
proof (intro conjI impI)
  assume p: "map_of (inflight \<sigma>) i = Some (AfterCreate f)"
  let ?\<sigma> = "settle i (TaskSettled (Rejected m)) \<sigma>"
  show "name (app ?\<sigma>) = name (app \<sigma>)" "url (app ?\<sigma>) = url (app \<sigma>)"
    "createSiteType (app ?\<sigma>) = createSiteType (app \<sigma>)"
    "criteriaText (app ?\<sigma>) = criteriaText (app \<sigma>)"
    "err (app ?\<sigma>) = Some (message_or m msg_create)"
    "calls ?\<sigma> = calls \<sigma>"
    by (simp_all add: settle_create [OF p] onCreate_settled_def setter_defs)
next
  assume "trim (name (app \<sigma>)) \<noteq> [] \<and> trim (url (app \<sigma>)) \<noteq> []
       \<and> (if trim (criteriaText (app \<sigma>)) \<noteq> [] then parse (criteriaText (app \<sigma>))
           else Some (JObj [])) = Some criteria"
  then have start: "onCreate parse \<sigma> =
    issue
      (CreateTask \<lparr>c_name = trim (name (app \<sigma>)), c_url = trim (url (app \<sigma>)),
                   c_site_type = createSiteType (app \<sigma>), c_criteria = criteria\<rparr>)
      (AfterCreate (filters (app \<sigma>)))
      (setLoading True (setErr None \<sigma>))"
    by (simp add: onCreate_valid)
  let ?\<sigma> = "then_settle (TaskSettled (Rejected m)) (onCreate parse \<sigma>)"
  show "name (app ?\<sigma>) = name (app \<sigma>)" "url (app ?\<sigma>) = url (app \<sigma>)"
    "createSiteType (app ?\<sigma>) = createSiteType (app \<sigma>)"
    "criteriaText (app ?\<sigma>) = criteriaText (app \<sigma>)"
    "err (app ?\<sigma>) = Some (message_or m msg_create)"
    by (simp_all add: start then_settle_issue onCreate_settled_def setter_defs)
qed (simp_all add: onCreate_form)

theorem create_failure_keeps_form_witness:
  "map_of (inflight create_in_flight) 2 = Some (AfterCreate (filters init_app))
   \<and> name (app (settle 2 (TaskSettled (Rejected conflict)) create_in_flight)) = ascii ''catalogue''
   \<and> url (app (settle 2 (TaskSettled (Rejected conflict)) create_in_flight))
       = ascii '' https://example.com ''
   \<and> createSiteType (app (settle 2 (TaskSettled (Rejected conflict)) create_in_flight)) = news
   \<and> criteriaText (app (settle 2 (TaskSettled (Rejected conflict)) create_in_flight))
       = default_criteriaText
   \<and> err (app (settle 2 (TaskSettled (Rejected conflict)) create_in_flight)) = conflict
   \<and> trim (name (app filled_form)) \<noteq> [] \<and> trim (url (app filled_form)) \<noteq> []
   \<and> name (app (then_settle (TaskSettled (Rejected conflict)) (onCreate example_parse filled_form)))
       = ascii ''catalogue''
   \<and> err (app (then_settle (TaskSettled (Rejected None)) (onCreate example_parse filled_form)))
       = Some msg_create"
proof -
  have p: "map_of (inflight create_in_flight) 2 = Some (AfterCreate (filters init_app))"
    by (simp add: create_in_flight_eval)
  note v = filled_form_valid(1,2,5)
  from p v create_failure_keeps_form
    [where \<sigma> = create_in_flight and i = 2 and f = "filters init_app" and m = conflict]
    create_failure_keeps_form
    [where \<sigma> = filled_form and parse = example_parse and m = conflict
       and criteria = "JObj [(ascii ''depth'', JNum (ascii ''1''))]"]
    create_failure_keeps_form
    [where \<sigma> = filled_form and parse = example_parse and m = None
       and criteria = "JObj [(ascii ''depth'', JNum (ascii ''1''))]"]
  have "name (app (settle 2 (TaskSettled (Rejected conflict)) create_in_flight))
       = name (app create_in_flight)"
    "url (app (settle 2 (TaskSettled (Rejected conflict)) create_in_flight))
       = url (app create_in_flight)"
    "createSiteType (app (settle 2 (TaskSettled (Rejected conflict)) create_in_flight))
       = createSiteType (app create_in_flight)"
    "criteriaText (app (settle 2 (TaskSettled (Rejected conflict)) create_in_flight))
       = criteriaText (app create_in_flight)"
    "err (app (settle 2 (TaskSettled (Rejected conflict)) create_in_flight))
       = Some (message_or conflict msg_create)"
    "name (app (then_settle (TaskSettled (Rejected conflict)) (onCreate example_parse filled_form)))
       = name (app filled_form)"
    "err (app (then_settle (TaskSettled (Rejected None)) (onCreate example_parse filled_form)))
       = Some (message_or None msg_create)"
    by blast+
  with p v show ?thesis
    by (simp add: create_in_flight_eval filled_form_fields message_or_def conflict_def)
qed

section \<open>Deleting a task: the confirmation\<close>

text \<open>
  C8. When the operator declines the confirmation, \<open>onDelete\<close> returns at once: the
  whole state after it is the state before it, so no call is logged, none is put in
  flight, and no state variable changes.
\<close>

theorem delete_declined_no_effect:
  "onDelete tid False \<sigma> = \<sigma>
   \<and> step parse \<sigma> (ClickDelete tid False) = \<sigma>
   \<and> calls (onDelete tid False \<sigma>) = calls \<sigma>
   \<and> inflight (onDelete tid False \<sigma>) = inflight \<sigma>
   \<and> app (onDelete tid False \<sigma>) = app \<sigma>"
  by (simp add: onDelete_def)

theorem delete_declined_no_effect_witness:
  "onDelete (ascii ''1'') False create_in_flight = create_in_flight
   \<and> calls (onDelete (ascii ''1'') False create_in_flight) =
       [ListTasks (Some (filters init_app)), CreateTask filled_payload]
   \<and> name (app (onDelete (ascii ''1'') False create_in_flight)) = ascii ''catalogue''"
  using delete_declined_no_effect [of "ascii ''1''" create_in_flight example_parse]
  by (simp add: create_in_flight_eval)

section \<open>The error message across actions\<close>

lemma err_load: "err (app (load c f \<sigma>)) = None"
  by (simp add: load_def issue_def setter_defs)

lemma err_load_settled:
  "err (app (then_settle (ListSettled out) (load c f \<sigma>))) =
     (case out of Fulfilled d \<Rightarrow> None | Rejected m \<Rightarrow> Some (message_or m msg_load))"
  by (cases out) (simp_all add: load_def then_settle_issue load_settled_def Let_def setter_defs)

lemma then_settle_onCreate:
  assumes "trim (name (app \<sigma>)) \<noteq> []" and "trim (url (app \<sigma>)) \<noteq> []"
    and "(if trim (criteriaText (app \<sigma>)) \<noteq> [] then parse (criteriaText (app \<sigma>))
         else Some (JObj [])) = Some criteria"
  shows "\<exists>\<sigma>'. then_settle (TaskSettled out) (onCreate parse \<sigma>) =
    (case out of
       Fulfilled t \<Rightarrow> load InCreate (filters (app \<sigma>)) \<sigma>'
     | Rejected m \<Rightarrow> setLoading False (setErr (Some (message_or m msg_create)) \<sigma>'))"
proof -
  from assms have "onCreate parse \<sigma> =
    issue
      (CreateTask \<lparr>c_name = trim (name (app \<sigma>)), c_url = trim (url (app \<sigma>)),
                   c_site_type = createSiteType (app \<sigma>), c_criteria = criteria\<rparr>)
      (AfterCreate (filters (app \<sigma>)))
      (setLoading True (setErr None \<sigma>))"
    by (rule onCreate_valid)
  then show ?thesis
    by (cases out) (auto simp: then_settle_issue onCreate_settled_def)
qed

lemma then_settle_onDelete:
  "\<exists>\<sigma>'. then_settle (VoidSettled out) (onDelete tid True \<sigma>) =
    (case out of
       Fulfilled u \<Rightarrow> load InDelete (filters (app \<sigma>)) \<sigma>'
     | Rejected m \<Rightarrow> setLoading False (setErr (Some (message_or m msg_delete)) \<sigma>'))"
  by (cases out) (auto simp: onDelete_def then_settle_issue onDelete_settled_def)

lemma then_settle_onStatus:
  "\<exists>\<sigma>'. then_settle (TaskSettled out) (onStatus tid newStatus \<sigma>) =
    (case out of
       Fulfilled t \<Rightarrow> load InStatus (filters (app \<sigma>)) \<sigma>'
     | Rejected m \<Rightarrow> setLoading False (setErr (Some (message_or m msg_status)) \<sigma>'))"
  by (cases out) (auto simp: onStatus_def then_settle_issue onStatus_settled_def)

lemma err_after_mutation:
  assumes "\<exists>\<sigma>'. \<sigma>1 =
    (case out of
       Fulfilled t \<Rightarrow> load c f \<sigma>'
     | Rejected m \<Rightarrow> setLoading False (setErr (Some (message_or m fallback)) \<sigma>'))"
  shows "err (app \<sigma>1) =
      (case out of Fulfilled t \<Rightarrow> None | Rejected m \<Rightarrow> Some (message_or m fallback))"
    and "out = Fulfilled t \<Longrightarrow> err (app (then_settle (ListSettled out') \<sigma>1)) =
      (case out' of Fulfilled d \<Rightarrow> None | Rejected m \<Rightarrow> Some (message_or m msg_load))"
  using assms
  by (cases out; auto simp: err_load err_load_settled setter_defs)+

lemma two_reloads_err: "err (app two_reloads) = None"
  by (simp add: two_reloads_def run_def mount_def load_def issue_def fresh_def setter_defs
      settle_def load_settled_def Let_def page_def
      effect_def deps_def filters_def init_system_def init_app_def or_undefined_def
      select_value_def trim_def is_ws_def white_space_def ascii_def)

text \<open>
  C9, as stated, fails: the success path of an action never writes the error, so an
  action that succeeds while another one has failed ends with that failure's message
  on display. Two changes of the filter text leave reloads A and B in flight with no
  error shown; A is rejected with "HTTP 500", then B is fulfilled: B has succeeded,
  its list is shown, nothing is in flight, and the error is A's.
\<close>

theorem error_after_success_counterexample:
  "inflight two_reloads = [(1, AfterList TopLevel), (2, AfterList TopLevel)]
   \<and> err (app two_reloads) = None
   \<and> err (app (run example_parse two_reloads
        [Settle 1 (ListSettled (Rejected http_500)),
         Settle 2 (ListSettled (Fulfilled (page [task_b])))])) = http_500
   \<and> items (app (run example_parse two_reloads
        [Settle 1 (ListSettled (Rejected http_500)),
         Settle 2 (ListSettled (Fulfilled (page [task_b])))])) = [task_b]
   \<and> inflight (run example_parse two_reloads
        [Settle 1 (ListSettled (Rejected http_500)),
         Settle 2 (ListSettled (Fulfilled (page [task_b])))]) = []
   \<and> http_500 \<noteq> None"
  by (simp add: two_reloads_eval two_reloads_err run_def settle_def load_settled_def Let_def
      setter_defs page_def message_or_def http_500_def)

text \<open>
  C9, amended. Each of the four actions clears the error when it starts, whatever was
  shown before (a create that fails validation shows the validation message; a
  deletion is an action once it is confirmed). In any state, with whatever else in
  flight, the rejection of a call replaces the error by the message of that rejection,
  or by the action's own fallback text; the fulfilment of \<open>createTask\<close>,
  \<open>deleteTask\<close> or \<open>updateStatus\<close> starts the reload, which clears the error; the
  fulfilment of a reload leaves the error as it is. So an action that runs on its own,
  with no other event between its start and its settlements, ends with no error when
  its calls are fulfilled and with the message of the failure when one is rejected,
  and the error shown is always one message, that of the failure that came last.
\<close>

theorem error_cleared_then_latest:
  "err (app (load c f \<sigma>)) = None
   \<and> err (app (then_settle (ListSettled (Fulfilled d)) (load c f \<sigma>))) = None
   \<and> err (app (then_settle (ListSettled (Rejected m)) (load c f \<sigma>)))
       = Some (message_or m msg_load)
   \<and> err (app (onCreate parse \<sigma>)) =
       (if trim (name (app \<sigma>)) = [] then Some msg_name
        else if trim (url (app \<sigma>)) = [] then Some msg_url
        else if trim (criteriaText (app \<sigma>)) \<noteq> [] \<and> parse (criteriaText (app \<sigma>)) = None
          then Some msg_criteria
        else None)
   \<and> (trim (name (app \<sigma>)) \<noteq> [] \<and> trim (url (app \<sigma>)) \<noteq> []
       \<and> (trim (criteriaText (app \<sigma>)) \<noteq> [] \<longrightarrow> parse (criteriaText (app \<sigma>)) \<noteq> None) \<longrightarrow>
        err (app (then_settle (TaskSettled (Rejected m)) (onCreate parse \<sigma>)))
          = Some (message_or m msg_create)
        \<and> err (app (then_settle (TaskSettled (Fulfilled t)) (onCreate parse \<sigma>))) = None
        \<and> err (app (then_settle (ListSettled (Fulfilled d))
              (then_settle (TaskSettled (Fulfilled t)) (onCreate parse \<sigma>)))) = None
        \<and> err (app (then_settle (ListSettled (Rejected m))
              (then_settle (TaskSettled (Fulfilled t)) (onCreate parse \<sigma>))))
          = Some (message_or m msg_load))
   \<and> err (app (onDelete tid True \<sigma>)) = None
   \<and> err (app (then_settle (VoidSettled (Rejected m)) (onDelete tid True \<sigma>)))
       = Some (message_or m msg_delete)
   \<and> err (app (then_settle (VoidSettled (Fulfilled ())) (onDelete tid True \<sigma>))) = None
   \<and> err (app (then_settle (ListSettled (Fulfilled d))
         (then_settle (VoidSettled (Fulfilled ())) (onDelete tid True \<sigma>)))) = None
   \<and> err (app (then_settle (ListSettled (Rejected m))
         (then_settle (VoidSettled (Fulfilled ())) (onDelete tid True \<sigma>))))
       = Some (message_or m msg_load)
   \<and> err (app (onStatus tid newStatus \<sigma>)) = None
   \<and> err (app (then_settle (TaskSettled (Rejected m)) (onStatus tid newStatus \<sigma>)))
       = Some (message_or m msg_status)
   \<and> err (app (then_settle (TaskSettled (Fulfilled t)) (onStatus tid newStatus \<sigma>))) = None
   \<and> err (app (then_settle (ListSettled (Fulfilled d))
         (then_settle (TaskSettled (Fulfilled t)) (onStatus tid newStatus \<sigma>)))) = None
   \<and> err (app (then_settle (ListSettled (Rejected m))
         (then_settle (TaskSettled (Fulfilled t)) (onStatus tid newStatus \<sigma>))))
       = Some (message_or m msg_load)
   \<and> (map_of (inflight \<sigma>) i = Some (AfterList c) \<longrightarrow>
        err (app (settle i (ListSettled (Rejected m)) \<sigma>)) = Some (message_or m msg_load))
   \<and> (map_of (inflight \<sigma>) i = Some (AfterCreate f) \<longrightarrow>
        err (app (settle i (TaskSettled (Rejected m)) \<sigma>)) = Some (message_or m msg_create))
   \<and> (map_of (inflight \<sigma>) i = Some (AfterDelete f) \<longrightarrow>
        err (app (settle i (VoidSettled (Rejected m)) \<sigma>)) = Some (message_or m msg_delete))
   \<and> (map_of (inflight \<sigma>) i = Some (AfterStatus f) \<longrightarrow>
        err (app (settle i (TaskSettled (Rejected m)) \<sigma>)) = Some (message_or m msg_status))
   \<and> (map_of (inflight \<sigma>) i = Some (AfterList c) \<longrightarrow>
        err (app (settle i (ListSettled (Fulfilled d)) \<sigma>)) = err (app \<sigma>))
   \<and> (map_of (inflight \<sigma>) i = Some (AfterCreate f) \<longrightarrow>
        err (app (settle i (TaskSettled (Fulfilled t)) \<sigma>)) = None)
   \<and> (map_of (inflight \<sigma>) i = Some (AfterDelete f) \<longrightarrow>
        err (app (settle i (VoidSettled (Fulfilled ())) \<sigma>)) = None)
   \<and> (map_of (inflight \<sigma>) i = Some (AfterStatus f) \<longrightarrow>
        err (app (settle i (TaskSettled (Fulfilled t)) \<sigma>)) = None)"
proof -
  have reload: "err (app (load c f \<sigma>)) = None"
    "err (app (then_settle (ListSettled (Fulfilled d)) (load c f \<sigma>))) = None"
    "err (app (then_settle (ListSettled (Rejected m)) (load c f \<sigma>)))
       = Some (message_or m msg_load)"
    by (simp_all add: err_load err_load_settled)
  have create0: "err (app (onCreate parse \<sigma>)) =
       (if trim (name (app \<sigma>)) = [] then Some msg_name
        else if trim (url (app \<sigma>)) = [] then Some msg_url
        else if trim (criteriaText (app \<sigma>)) \<noteq> [] \<and> parse (criteriaText (app \<sigma>)) = None
          then Some msg_criteria
        else None)"
    by (auto simp: onCreate_def Let_def setter_defs issue_def split: option.splits)
  have create: "err (app (then_settle (TaskSettled (Rejected m)) (onCreate parse \<sigma>)))
          = Some (message_or m msg_create)
        \<and> err (app (then_settle (TaskSettled (Fulfilled t)) (onCreate parse \<sigma>))) = None
        \<and> err (app (then_settle (ListSettled (Fulfilled d))
              (then_settle (TaskSettled (Fulfilled t)) (onCreate parse \<sigma>)))) = None
        \<and> err (app (then_settle (ListSettled (Rejected m))
              (then_settle (TaskSettled (Fulfilled t)) (onCreate parse \<sigma>))))
          = Some (message_or m msg_load)"
    if v: "trim (name (app \<sigma>)) \<noteq> [] \<and> trim (url (app \<sigma>)) \<noteq> []
       \<and> (trim (criteriaText (app \<sigma>)) \<noteq> [] \<longrightarrow> parse (criteriaText (app \<sigma>)) \<noteq> None)"
  proof -
    from v obtain criteria where
      "(if trim (criteriaText (app \<sigma>)) \<noteq> [] then parse (criteriaText (app \<sigma>))
         else Some (JObj [])) = Some criteria"
      by (cases "trim (criteriaText (app \<sigma>)) = []") auto
    with v have "\<exists>\<sigma>'. then_settle (TaskSettled out) (onCreate parse \<sigma>) =
      (case out of
         Fulfilled t \<Rightarrow> load InCreate (filters (app \<sigma>)) \<sigma>'
       | Rejected m \<Rightarrow> setLoading False (setErr (Some (message_or m msg_create)) \<sigma>'))" for out
      by (intro then_settle_onCreate) simp_all
    from err_after_mutation [OF this] show ?thesis by simp
  qed
  have delete: "err (app (onDelete tid True \<sigma>)) = None"
    "err (app (then_settle (VoidSettled (Rejected m)) (onDelete tid True \<sigma>)))
       = Some (message_or m msg_delete)"
    "err (app (then_settle (VoidSettled (Fulfilled ())) (onDelete tid True \<sigma>))) = None"
    "err (app (then_settle (ListSettled (Fulfilled d))
         (then_settle (VoidSettled (Fulfilled ())) (onDelete tid True \<sigma>)))) = None"
    "err (app (then_settle (ListSettled (Rejected m))
         (then_settle (VoidSettled (Fulfilled ())) (onDelete tid True \<sigma>))))
       = Some (message_or m msg_load)"
    using err_after_mutation [OF then_settle_onDelete]
    by (simp_all add: onDelete_def issue_def setter_defs)
  have status: "err (app (onStatus tid newStatus \<sigma>)) = None"
    "err (app (then_settle (TaskSettled (Rejected m)) (onStatus tid newStatus \<sigma>)))
       = Some (message_or m msg_status)"
    "err (app (then_settle (TaskSettled (Fulfilled t)) (onStatus tid newStatus \<sigma>))) = None"
    "err (app (then_settle (ListSettled (Fulfilled d))
         (then_settle (TaskSettled (Fulfilled t)) (onStatus tid newStatus \<sigma>)))) = None"
    "err (app (then_settle (ListSettled (Rejected m))
         (then_settle (TaskSettled (Fulfilled t)) (onStatus tid newStatus \<sigma>))))
       = Some (message_or m msg_load)"
    using err_after_mutation [OF then_settle_onStatus]
    by (simp_all add: onStatus_def issue_def setter_defs)
  have rejected:
    "map_of (inflight \<sigma>) i = Some (AfterList c) \<longrightarrow>
        err (app (settle i (ListSettled (Rejected m)) \<sigma>)) = Some (message_or m msg_load)"
    "map_of (inflight \<sigma>) i = Some (AfterCreate f) \<longrightarrow>
        err (app (settle i (TaskSettled (Rejected m)) \<sigma>)) = Some (message_or m msg_create)"
    "map_of (inflight \<sigma>) i = Some (AfterDelete f) \<longrightarrow>
        err (app (settle i (VoidSettled (Rejected m)) \<sigma>)) = Some (message_or m msg_delete)"
    "map_of (inflight \<sigma>) i = Some (AfterStatus f) \<longrightarrow>
        err (app (settle i (TaskSettled (Rejected m)) \<sigma>)) = Some (message_or m msg_status)"
    by (simp_all add: settle_def handler_defs setter_defs)
  have fulfilled:
    "map_of (inflight \<sigma>) i = Some (AfterList c) \<longrightarrow>
        err (app (settle i (ListSettled (Fulfilled d)) \<sigma>)) = err (app \<sigma>)"
    "map_of (inflight \<sigma>) i = Some (AfterCreate f) \<longrightarrow>
        err (app (settle i (TaskSettled (Fulfilled t)) \<sigma>)) = None"
    "map_of (inflight \<sigma>) i = Some (AfterDelete f) \<longrightarrow>
        err (app (settle i (VoidSettled (Fulfilled ())) \<sigma>)) = None"
    "map_of (inflight \<sigma>) i = Some (AfterStatus f) \<longrightarrow>
        err (app (settle i (TaskSettled (Fulfilled t)) \<sigma>)) = None"
    by (simp_all add: settle_def handler_defs setter_defs)
  from reload create0 create delete status rejected fulfilled show ?thesis by blast
qed

lemma in_flight_eval:
  "inflight loaded = []" "err (app loaded) = None"
  "inflight delete_in_flight = [(1, AfterDelete (filters init_app))]"
  "inflight status_in_flight = [(1, AfterStatus (filters init_app))]"
  by (simp_all add: delete_in_flight_def status_in_flight_def loaded_def onDelete_def
      onStatus_def mount_def load_def issue_def fresh_def setter_defs settle_def
      load_settled_def Let_def init_system_def filters_def init_app_def page_def)

theorem error_cleared_then_latest_witness:
  "trim (name (app filled_form)) \<noteq> [] \<and> trim (url (app filled_form)) \<noteq> []
   \<and> example_parse (criteriaText (app filled_form)) \<noteq> None
   \<and> err (app (onCreate example_parse filled_form)) = None
   \<and> err (app (then_settle (TaskSettled (Rejected conflict)) (onCreate example_parse filled_form)))
       = conflict
   \<and> err (app (then_settle (ListSettled (Rejected None))
         (then_settle (TaskSettled (Fulfilled task_a)) (onCreate example_parse filled_form))))
       = Some msg_load
   \<and> err (app (then_settle (ListSettled (Fulfilled (page [task_a])))
         (then_settle (TaskSettled (Fulfilled task_a)) (onCreate example_parse filled_form))))
       = None
   \<and> map_of (inflight two_reloads) 1 = Some (AfterList TopLevel)
   \<and> err (app (settle 1 (ListSettled (Rejected http_500)) two_reloads)) = http_500
   \<and> err (app (settle 1 (ListSettled (Fulfilled (page [task_a]))) two_reloads)) = None
   \<and> map_of (inflight create_in_flight) 2 = Some (AfterCreate (filters init_app))
   \<and> err (app (settle 2 (TaskSettled (Rejected conflict)) create_in_flight)) = conflict
   \<and> err (app (settle 2 (TaskSettled (Fulfilled task_a)) create_in_flight)) = None
   \<and> map_of (inflight delete_in_flight) 1 = Some (AfterDelete (filters init_app))
   \<and> err (app (settle 1 (VoidSettled (Rejected None)) delete_in_flight)) = Some msg_delete
   \<and> err (app (settle 1 (VoidSettled (Fulfilled ())) delete_in_flight)) = None
   \<and> map_of (inflight status_in_flight) 1 = Some (AfterStatus (filters init_app))
   \<and> err (app (settle 1 (TaskSettled (Rejected conflict)) status_in_flight)) = conflict
   \<and> err (app (settle 1 (TaskSettled (Fulfilled task_a)) status_in_flight)) = None"
proof -
  note v = filled_form_valid(1,2,3,4)
  from v error_cleared_then_latest
    [where \<sigma> = filled_form and parse = example_parse and m = conflict and t = task_a
       and d = "page [task_a]"]
    error_cleared_then_latest
    [where \<sigma> = filled_form and parse = example_parse and m = None and t = task_a
       and d = "page [task_a]"]
  have a: "err (app (onCreate example_parse filled_form)) = None"
    "err (app (then_settle (TaskSettled (Rejected conflict)) (onCreate example_parse filled_form)))
       = Some (message_or conflict msg_create)"
    "err (app (then_settle (ListSettled (Rejected None))
         (then_settle (TaskSettled (Fulfilled task_a)) (onCreate example_parse filled_form))))
       = Some (message_or None msg_load)"
    "err (app (then_settle (ListSettled (Fulfilled (page [task_a])))
         (then_settle (TaskSettled (Fulfilled task_a)) (onCreate example_parse filled_form))))
       = None"
    by simp_all
  have l: "map_of (inflight two_reloads) 1 = Some (AfterList TopLevel)"
    by (simp add: two_reloads_eval)
  from l error_cleared_then_latest
    [where \<sigma> = two_reloads and i = 1 and c = TopLevel and m = http_500 and d = "page [task_a]"]
  have b: "err (app (settle 1 (ListSettled (Rejected http_500)) two_reloads))
       = Some (message_or http_500 msg_load)"
    "err (app (settle 1 (ListSettled (Fulfilled (page [task_a]))) two_reloads))
       = err (app two_reloads)"
    by blast+
  have c: "map_of (inflight create_in_flight) 2 = Some (AfterCreate (filters init_app))"
    by (simp add: create_in_flight_eval)
  from c error_cleared_then_latest
    [where \<sigma> = create_in_flight and i = 2 and f = "filters init_app" and m = conflict
       and t = task_a]
  have c': "err (app (settle 2 (TaskSettled (Rejected conflict)) create_in_flight))
       = Some (message_or conflict msg_create)"
    "err (app (settle 2 (TaskSettled (Fulfilled task_a)) create_in_flight)) = None"
    by blast+
  have d: "map_of (inflight delete_in_flight) 1 = Some (AfterDelete (filters init_app))"
    by (simp add: in_flight_eval)
  from d error_cleared_then_latest
    [where \<sigma> = delete_in_flight and i = 1 and f = "filters init_app" and m = None]
  have d': "err (app (settle 1 (VoidSettled (Rejected None)) delete_in_flight))
       = Some (message_or None msg_delete)"
    "err (app (settle 1 (VoidSettled (Fulfilled ())) delete_in_flight)) = None"
    by blast+
  have e: "map_of (inflight status_in_flight) 1 = Some (AfterStatus (filters init_app))"
    by (simp add: in_flight_eval)
  from e error_cleared_then_latest
    [where \<sigma> = status_in_flight and i = 1 and f = "filters init_app" and m = conflict
       and t = task_a]
  have e': "err (app (settle 1 (TaskSettled (Rejected conflict)) status_in_flight))
       = Some (message_or conflict msg_status)"
    "err (app (settle 1 (TaskSettled (Fulfilled task_a)) status_in_flight)) = None"
    by blast+
  from v a l b c c' d d' e e' show ?thesis
    by (simp add: message_or_def conflict_def http_500_def two_reloads_err)
qed

section \<open>The site type of the create form\<close>

lemma createSiteType_settle:
  "createSiteType (app (settle i st \<sigma>)) = createSiteType (app \<sigma>)"
proof (cases "map_of (inflight \<sigma>) i")
  case None
  then show ?thesis by (simp add: settle_def)
next
  case (Some k)
  have "createSiteType (app \<sigma>') = createSiteType (app \<sigma>0)"
    if "resume k st \<sigma>0 = Some \<sigma>'" for \<sigma>0 \<sigma>'
    using that
    by (cases k; cases st)
      (auto simp: handler_defs setter_defs split: outcome.splits)
  with Some show ?thesis
    by (auto simp: settle_def split: option.splits)
qed

text \<open>
  C10. The site type of the create form is the same after \<open>onCreate\<close> as before it,
  the same after any call settles, whether fulfilled or rejected, and so the same
  after a create action has run through its \<open>createTask\<close> call and its reload with
  any outcomes. When a \<open>createTask\<close> call is fulfilled, the component's state changes
  in the name, the URL and the criteria text, which are reset, and in the loading flag
  and the error, which the reload sets; every other variable keeps its value.
\<close>

theorem create_keeps_site_type:
  "createSiteType (app (onCreate parse \<sigma>)) = createSiteType (app \<sigma>)
   \<and> createSiteType (app (settle i st \<sigma>)) = createSiteType (app \<sigma>)
   \<and> createSiteType (app (then_settle st2 (then_settle st1 (onCreate parse \<sigma>))))
       = createSiteType (app \<sigma>)
   \<and> (map_of (inflight \<sigma>) i = Some (AfterCreate f) \<longrightarrow>
        app (settle i (TaskSettled (Fulfilled t)) \<sigma>) =
          (app \<sigma>)\<lparr>name := [], url := [], criteriaText := default_criteriaText,
                    loading := True, err := None\<rparr>)"
proof (intro conjI impI)
  assume p: "map_of (inflight \<sigma>) i = Some (AfterCreate f)"
  show "app (settle i (TaskSettled (Fulfilled t)) \<sigma>) =
          (app \<sigma>)\<lparr>name := [], url := [], criteriaText := default_criteriaText,
                    loading := True, err := None\<rparr>"
    by (simp add: settle_create [OF p] onCreate_settled_def load_def issue_def setter_defs)
qed (simp_all add: onCreate_form createSiteType_settle then_settle_def)

theorem create_keeps_site_type_witness:
  "map_of (inflight create_in_flight) 2 = Some (AfterCreate (filters init_app))
   \<and> createSiteType (app (settle 2 (TaskSettled (Fulfilled task_a)) create_in_flight)) = news
   \<and> name (app (settle 2 (TaskSettled (Fulfilled task_a)) create_in_flight)) = []
   \<and> createSiteType (app (onCreate example_parse filled_form)) = news"
proof -
  have p: "map_of (inflight create_in_flight) 2 = Some (AfterCreate (filters init_app))"
    by (simp add: create_in_flight_eval)
  from p create_keeps_site_type
    [where \<sigma> = create_in_flight and i = 2 and f = "filters init_app" and t = task_a]
    create_keeps_site_type [where \<sigma> = filled_form and parse = example_parse]
  have "app (settle 2 (TaskSettled (Fulfilled task_a)) create_in_flight) =
          (app create_in_flight)\<lparr>name := [], url := [], criteriaText := default_criteriaText,
                    loading := True, err := None\<rparr>"
    "createSiteType (app (onCreate example_parse filled_form)) = createSiteType (app filled_form)"
    by blast+
  with p show ?thesis
    by (simp add: create_in_flight_eval filled_form_eval)
qed

end
